theory Spec2Isabelle
  imports Complex_Main
begin

section \<open>Data model (shared/schema.ts)\<close>

text \<open>
  Rows of the PostgreSQL tables declared with drizzle's \<open>pgTable\<close>. A nullable column is
  an \<open>option\<close> (\<open>None\<close> is SQL NULL), a \<open>decimal\<close> column is a rational number, a
  \<open>timestamp\<close> is a clock reading (a natural number), a \<open>serial\<close> column is an integer
  drawn from the table's sequence. The column \<open>id\<close> of each table carries the table's
  suffix, since plain \<open>id\<close> is the identity function of HOL.
\<close>

record genre =
  genre_id :: int
  genre_name :: string

text \<open>\<open>InsertMovie\<close>: the columns of \<open>movies\<close> without \<open>id\<close>, \<open>createdAt\<close>, \<open>updatedAt\<close>.\<close>

record InsertMovie =
  tmdbId :: int
  title :: string
  overview :: "string option"
  posterPath :: "string option"
  backdropPath :: "string option"
  releaseDate :: "string option"
  runtime :: "int option"
  voteAverage :: "rat option"
  voteCount :: "int option"
  genres :: "genre list option"
  originalLanguage :: "string option"
  adult :: "bool option"
  popularity :: "rat option"

text \<open>\<open>Movie\<close>: a selected row of \<open>movies\<close>.\<close>

record Movie = InsertMovie +
  id_mv :: int
  createdAt :: "nat option"
  updatedAt :: "nat option"

record Watchlist =
  id_wl :: int
  userId_wl :: string
  movieId_wl :: int
  createdAt_wl :: "nat option"

record Favorite =
  id_fav :: int
  userId_fav :: string
  movieId_fav :: int
  createdAt_fav :: "nat option"

record Rating =
  id_rt :: int
  userId_rt :: string
  movieId_rt :: int
  rating_rt :: rat
  createdAt_rt :: "nat option"
  updatedAt_rt :: "nat option"

text \<open>
  \<open>movieFilterSchema\<close>. An optional field is an \<open>option\<close> (\<open>None\<close> is \<open>undefined\<close>);
  \<open>page\<close> and \<open>limit\<close> have defaults in the schema, so the inferred type has them as plain
  numbers. Year bounds, page and limit are integers, rating bounds are rationals. The
  filter's \<open>genres\<close> and \<open>runtime\<close> carry the suffix \<open>_f\<close> (the movie columns have the
  plain names).
\<close>

datatype runtime_bucket = Any | Under90 | From90to120 | Over120

datatype sort_key = Popularity | Rating | Release_date | Title

datatype sort_order = Asc | Desc

record MovieFilter =
  genres_f :: "int list option"
  regions :: "string list option"
  releaseYearFrom :: "int option"
  releaseYearTo :: "int option"
  ratingMin :: "rat option"
  ratingMax :: "rat option"
  runtime_f :: "runtime_bucket option"
  ageRating :: "string list option"
  sortBy :: "sort_key option"
  sortOrder :: "sort_order option"
  page :: int
  limit :: int

section \<open>The query layer (drizzle-orm over PostgreSQL)\<close>

text \<open>
  A condition of a WHERE clause evaluates on a row to true, false or NULL (\<open>None\<close>); the
  clause keeps the rows on which it is true.
\<close>

type_synonym 'r cond = "'r \<Rightarrow> bool option"

fun and2 :: "bool option \<Rightarrow> bool option \<Rightarrow> bool option" where
  "and2 (Some False) _ = Some False"
| "and2 _ (Some False) = Some False"
| "and2 (Some True) (Some True) = Some True"
| "and2 _ _ = None"

fun or2 :: "bool option \<Rightarrow> bool option \<Rightarrow> bool option" where
  "or2 (Some True) _ = Some True"
| "or2 _ (Some True) = Some True"
| "or2 (Some False) (Some False) = Some False"
| "or2 _ _ = None"

text \<open>drizzle's \<open>and(...cs)\<close> and \<open>or(...cs)\<close> on a non-empty list of conditions.\<close>

definition and_sql :: "'r cond list \<Rightarrow> 'r cond" where
  "and_sql cs r = foldr (\<lambda>c acc. and2 (c r) acc) cs (Some True)"

definition or_sql :: "'r cond list \<Rightarrow> 'r cond" where
  "or_sql cs r = foldr (\<lambda>c acc. or2 (c r) acc) cs (Some False)"

text \<open>\<open>gte(col, v)\<close>, \<open>lte(col, v)\<close> and the raw comparisons \<open>col < v\<close>, \<open>col > v\<close>:
  NULL when the column is NULL.\<close>

definition gte :: "('r \<Rightarrow> 'a::linorder option) \<Rightarrow> 'a \<Rightarrow> 'r cond" where
  "gte col v r = map_option (\<lambda>x. v \<le> x) (col r)"

definition lte :: "('r \<Rightarrow> 'a::linorder option) \<Rightarrow> 'a \<Rightarrow> 'r cond" where
  "lte col v r = map_option (\<lambda>x. x \<le> v) (col r)"

definition lt_sql :: "('r \<Rightarrow> 'a::linorder option) \<Rightarrow> 'a \<Rightarrow> 'r cond" where
  "lt_sql col v r = map_option (\<lambda>x. x < v) (col r)"

definition gt_sql :: "('r \<Rightarrow> 'a::linorder option) \<Rightarrow> 'a \<Rightarrow> 'r cond" where
  "gt_sql col v r = map_option (\<lambda>x. v < x) (col r)"

text \<open>
  ORDER BY. PostgreSQL sorts NULL as larger than every value: last under \<open>asc\<close>, first
  under \<open>desc\<close>. The order of rows with equal keys is not fixed by SQL; the model keeps
  them in table order (an insertion sort). A statement that names \<open>order_rows\<close> speaks
  of this order; the sample catalogue has no equal keys.
\<close>

fun null_high :: "('a \<Rightarrow> 'a \<Rightarrow> bool) \<Rightarrow> 'a option \<Rightarrow> 'a option \<Rightarrow> bool" where
  "null_high le _ None = True"
| "null_high le None (Some _) = False"
| "null_high le (Some a) (Some b) = le a b"

definition asc :: "('a \<Rightarrow> 'a \<Rightarrow> bool) \<Rightarrow> ('r \<Rightarrow> 'a option) \<Rightarrow> 'r \<Rightarrow> 'r \<Rightarrow> bool" where
  "asc le col a b = null_high le (col a) (col b)"

definition desc :: "('a \<Rightarrow> 'a \<Rightarrow> bool) \<Rightarrow> ('r \<Rightarrow> 'a option) \<Rightarrow> 'r \<Rightarrow> 'r \<Rightarrow> bool" where
  "desc le col a b = null_high le (col b) (col a)"

fun insert_row :: "('r \<Rightarrow> 'r \<Rightarrow> bool) \<Rightarrow> 'r \<Rightarrow> 'r list \<Rightarrow> 'r list" where
  "insert_row prec x [] = [x]"
| "insert_row prec x (y # ys) =
     (if prec x y then x # y # ys else y # insert_row prec x ys)"

definition order_rows :: "('r \<Rightarrow> 'r \<Rightarrow> bool) \<Rightarrow> 'r list \<Rightarrow> 'r list" where
  "order_rows prec rows = foldr (insert_row prec) rows []"

datatype db_error =
    OffsetNegative
  | UndefinedFunction string
  | UniqueViolation
  | NoConstraintForConflictTarget
  | FetchFailed

text \<open>
  The SQL of a WHERE clause: a test that PostgreSQL evaluates on a row, SQL text that
  calls a function PostgreSQL does not define (\<open>YEAR\<close> and \<open>JSON_SEARCH\<close> are functions
  of MySQL), and drizzle's \<open>and(...)\<close> and \<open>or(...)\<close> of such parts. PostgreSQL rejects a
  query that calls an undefined function (error 42883) before it reads any row.
\<close>

datatype 'r sql =
    Test "'r cond"
  | Undefined_call string
  | Conj "'r sql list"
  | Disj "'r sql list"

fun undefined_calls :: "'r sql \<Rightarrow> string list" where
  "undefined_calls (Test c) = []"
| "undefined_calls (Undefined_call f) = [f]"
| "undefined_calls (Conj ws) = concat (map undefined_calls ws)"
| "undefined_calls (Disj ws) = concat (map undefined_calls ws)"

fun holds :: "'r sql \<Rightarrow> 'r cond" where
  "holds (Test c) = c"
| "holds (Undefined_call f) = (\<lambda>r. None)"
| "holds (Conj ws) = and_sql (map holds ws)"
| "holds (Disj ws) = or_sql (map holds ws)"

text \<open>
  A select query as the builder accumulates it (\<open>.where\<close>, \<open>.orderBy\<close>, \<open>.limit\<close>,
  \<open>.offset\<close>), and its execution on the rows of a table. drizzle writes a LIMIT clause
  only for a limit that is not negative (a negative one is dropped) and an OFFSET clause
  for every offset but 0; PostgreSQL rejects a negative OFFSET when the query runs.
\<close>

record 'r query =
  where_q :: "'r sql option"
  orderBy_q :: "('r \<Rightarrow> 'r \<Rightarrow> bool) option"
  limit_q :: "int option"
  offset_q :: "int option"

definition select_from :: "'r query" where
  "select_from = \<lparr>where_q = None, orderBy_q = None, limit_q = None, offset_q = None\<rparr>"

definition where_rows :: "'r cond option \<Rightarrow> 'r list \<Rightarrow> 'r list" where
  "where_rows w rows = (case w of None \<Rightarrow> rows | Some c \<Rightarrow> filter (\<lambda>r. c r = Some True) rows)"

definition limit_rows :: "int option \<Rightarrow> 'r list \<Rightarrow> 'r list" where
  "limit_rows l rows =
     (case l of None \<Rightarrow> rows | Some k \<Rightarrow> if 0 \<le> k then take (nat k) rows else rows)"

definition rejected :: "'r sql option \<Rightarrow> string list" where
  "rejected w = (case w of None \<Rightarrow> [] | Some c \<Rightarrow> undefined_calls c)"

definition run_query :: "'r query \<Rightarrow> 'r list \<Rightarrow> db_error + 'r list" where
  "run_query q rows =
     (case rejected (where_q q) of
        f # _ \<Rightarrow> Inl (UndefinedFunction f)
      | [] \<Rightarrow>
          (let matched = where_rows (map_option holds (where_q q)) rows;
               ordered = (case orderBy_q q of
                            None \<Rightarrow> matched
                          | Some prec \<Rightarrow> order_rows prec matched)
           in case offset_q q of
                Some off \<Rightarrow>
                  (if off < 0 then Inl OffsetNegative
                   else Inr (limit_rows (limit_q q) (drop (nat off) ordered)))
              | None \<Rightarrow> Inr (limit_rows (limit_q q) ordered)))"

text \<open>\<open>select count(*)\<close> with the same optional WHERE clause.\<close>

definition run_count :: "'r sql option \<Rightarrow> 'r list \<Rightarrow> db_error + nat" where
  "run_count w rows =
     (case rejected w of
        f # _ \<Rightarrow> Inl (UndefinedFunction f)
      | [] \<Rightarrow> Inr (length (where_rows (map_option holds w) rows)))"

section \<open>The database state\<close>

text \<open>The tables with the last value of each \<open>serial\<close> sequence.\<close>

record db =
  movies :: "Movie list"
  movies_seq :: int
  watchlist :: "Watchlist list"
  watchlist_seq :: int
  favorites :: "Favorite list"
  favorites_seq :: int
  ratings :: "Rating list"
  ratings_seq :: int

section \<open>DatabaseStorage.getMovies\<close>

text \<open>The collation by which the database orders text is a parameter of the model.\<close>

record engine =
  text_le :: "string \<Rightarrow> string \<Rightarrow> bool"

text \<open>JavaScript truthiness of an optional number: \<open>undefined\<close> and \<open>0\<close> are falsy.\<close>

definition truthy :: "'a::zero option \<Rightarrow> 'a option" where
  "truthy v = (case v of None \<Rightarrow> None | Some x \<Rightarrow> if x = 0 then None else Some x)"

text \<open>
  The array \<open>conditions\<close> after the six guarded pushes, in the order of the source. The
  genre condition is an \<open>or\<close> of one raw \<open>JSON_SEARCH(...) IS NOT NULL\<close> per genre id, a
  release-year condition compares the raw \<open>YEAR(release_date)\<close> with the bound.
\<close>

definition conditions :: "MovieFilter \<Rightarrow> Movie sql list" where
  "conditions filters =
     (case genres_f filters of
        Some gs \<Rightarrow>
          if length gs > 0
          then [Disj (map (\<lambda>genreId. Undefined_call ''JSON_SEARCH'') gs)]
          else []
      | None \<Rightarrow> [])
     @ (case truthy (releaseYearFrom filters) of
          Some y \<Rightarrow> [Undefined_call ''YEAR''] | None \<Rightarrow> [])
     @ (case truthy (releaseYearTo filters) of
          Some y \<Rightarrow> [Undefined_call ''YEAR''] | None \<Rightarrow> [])
     @ (case truthy (ratingMin filters) of
          Some v \<Rightarrow> [Test (gte voteAverage v)] | None \<Rightarrow> [])
     @ (case truthy (ratingMax filters) of
          Some v \<Rightarrow> [Test (lte voteAverage v)] | None \<Rightarrow> [])
     @ (case runtime_f filters of
          Some Under90 \<Rightarrow> [Test (lt_sql runtime 90)]
        | Some From90to120 \<Rightarrow> [Conj [Test (gte runtime 90), Test (lte runtime 120)]]
        | Some Over120 \<Rightarrow> [Test (gt_sql runtime 120)]
        | _ \<Rightarrow> [])"

definition whereCondition :: "MovieFilter \<Rightarrow> Movie sql option" where
  "whereCondition filters =
     (let cs = conditions filters
      in if length cs > 0 then Some (Conj cs) else None)"

definition ordering :: "engine \<Rightarrow> MovieFilter \<Rightarrow> Movie \<Rightarrow> Movie \<Rightarrow> bool" where
  "ordering eng filters =
     (let sortBy' = (case sortBy filters of Some k \<Rightarrow> k | None \<Rightarrow> Popularity);
          sortOrder' = (case sortOrder filters of Some d \<Rightarrow> d | None \<Rightarrow> Desc)
      in case sortBy' of
           Rating \<Rightarrow>
             (if sortOrder' = Desc then desc (\<le>) voteAverage else asc (\<le>) voteAverage)
         | Release_date \<Rightarrow>
             (if sortOrder' = Desc then desc (text_le eng) releaseDate
              else asc (text_le eng) releaseDate)
         | Title \<Rightarrow>
             (if sortOrder' = Desc then desc (text_le eng) (\<lambda>m. Some (title m))
              else asc (text_le eng) (\<lambda>m. Some (title m)))
         | Popularity \<Rightarrow>
             (if sortOrder' = Desc then desc (\<le>) popularity else asc (\<le>) popularity))"

definition page_of :: "MovieFilter \<Rightarrow> int" where
  "page_of filters = (if page filters = 0 then 1 else page filters)"

definition limit_of :: "MovieFilter \<Rightarrow> int" where
  "limit_of filters = (if limit filters = 0 then 20 else limit filters)"

definition offset_of :: "MovieFilter \<Rightarrow> int" where
  "offset_of filters = (page_of filters - 1) * limit_of filters"

text \<open>
  The page query and the count query, both with \<open>whereCondition\<close> when a condition was
  pushed; \<open>Promise.all\<close> fails when one of them fails.
\<close>

definition getMovies :: "engine \<Rightarrow> MovieFilter \<Rightarrow> db \<Rightarrow> db_error + (Movie list \<times> nat)" where
  "getMovies eng filters d =
     (let w = whereCondition filters;
          query = select_from\<lparr>where_q := w,
                    orderBy_q := Some (ordering eng filters),
                    limit_q := Some (limit_of filters),
                    offset_q := Some (offset_of filters)\<rparr>
      in case run_query query (movies d) of
           Inl e \<Rightarrow> Inl e
         | Inr moviesResult \<Rightarrow>
             (case run_count w (movies d) of
                Inl e \<Rightarrow> Inl e
              | Inr count \<Rightarrow> Inr (moviesResult, count)))"

text \<open>The rows that the WHERE clause of both queries keeps, when the queries run.\<close>

definition selected :: "MovieFilter \<Rightarrow> Movie \<Rightarrow> bool" where
  "selected filters m =
     (case whereCondition filters of None \<Rightarrow> True | Some w \<Rightarrow> holds w m = Some True)"

section \<open>Movie lookup and insertion\<close>

text \<open>
  A unique constraint of a table: the names of its columns and the relation "equal on
  these columns". The constraints are the ones shared/schema.ts declares: the primary key
  of every table, \<open>tmdb_id\<close> of \<open>movies\<close>; \<open>watchlist\<close>, \<open>favorites\<close> and \<open>ratings\<close>
  declare none on \<open>(user_id, movie_id)\<close>.
\<close>

type_synonym 'r unique = "string list \<times> ('r \<Rightarrow> 'r \<Rightarrow> bool)"

definition movies_unique :: "Movie unique list" where
  "movies_unique =
     [([''id''], \<lambda>a b. id_mv a = id_mv b), ([''tmdb_id''], \<lambda>a b. tmdbId a = tmdbId b)]"

definition watchlist_unique :: "Watchlist unique list" where
  "watchlist_unique = [([''id''], \<lambda>a b. id_wl a = id_wl b)]"

definition favorites_unique :: "Favorite unique list" where
  "favorites_unique = [([''id''], \<lambda>a b. id_fav a = id_fav b)]"

definition ratings_unique :: "Rating unique list" where
  "ratings_unique = [([''id''], \<lambda>a b. id_rt a = id_rt b)]"

definition violates :: "'r unique list \<Rightarrow> 'r \<Rightarrow> 'r list \<Rightarrow> bool" where
  "violates uniq row rows = list_ex (\<lambda>u. list_ex (\<lambda>x. snd u x row) rows) uniq"

text \<open>\<open>insert(...).values(row).returning()\<close>: a unique violation is an error.\<close>

definition insert_returning :: "'r unique list \<Rightarrow> 'r \<Rightarrow> 'r list \<Rightarrow> db_error + ('r \<times> 'r list)" where
  "insert_returning uniq row rows =
     (if violates uniq row rows then Inl UniqueViolation else Inr (row, rows @ [row]))"

text \<open>
  \<open>.onConflictDoNothing().returning()\<close>: a row that violates a unique constraint is
  skipped, and then nothing is returned.
\<close>

definition onConflictDoNothing :: "'r unique list \<Rightarrow> 'r \<Rightarrow> 'r list \<Rightarrow> 'r option \<times> 'r list" where
  "onConflictDoNothing uniq row rows =
     (if violates uniq row rows then (None, rows) else (Some row, rows @ [row]))"

text \<open>
  \<open>.onConflictDoUpdate({target, set}).returning()\<close>: PostgreSQL infers the arbiter from
  the target columns and rejects the statement when no unique constraint is on exactly
  these columns. With an arbiter, the row in conflict is updated by \<open>set\<close>, and a row in no
  conflict is inserted.
\<close>

definition onConflictDoUpdate ::
  "'r unique list \<Rightarrow> string list \<Rightarrow> ('r \<Rightarrow> 'r) \<Rightarrow> 'r \<Rightarrow> 'r list \<Rightarrow> db_error + ('r \<times> 'r list)" where
  "onConflictDoUpdate uniq target set_cols row rows =
     (case find (\<lambda>u. set (fst u) = set target) uniq of
        None \<Rightarrow> Inl NoConstraintForConflictTarget
      | Some arbiter \<Rightarrow>
          (case find (\<lambda>x. snd arbiter x row) rows of
             Some old \<Rightarrow>
               Inr (set_cols old, map (\<lambda>x. if snd arbiter x row then set_cols x else x) rows)
           | None \<Rightarrow> insert_returning uniq row rows))"

text \<open>\<open>eq(col, v)\<close> on a column that is NOT NULL, and \<open>delete(...).where(c)\<close>.\<close>

definition eq_sql :: "('r \<Rightarrow> 'a) \<Rightarrow> 'a \<Rightarrow> 'r cond" where
  "eq_sql col v r = Some (col r = v)"

definition delete_rows :: "'r cond \<Rightarrow> 'r list \<Rightarrow> 'r list" where
  "delete_rows c rows = filter (\<lambda>r. c r \<noteq> Some True) rows"

text \<open>\<open>const [movie] = await db.select()...\<close>: the first selected row, or \<open>undefined\<close>.\<close>

definition first_row :: "'r list \<Rightarrow> 'r option" where
  "first_row rows = (case rows of [] \<Rightarrow> None | r # _ \<Rightarrow> Some r)"

definition getMovieByTmdbId :: "int \<Rightarrow> db \<Rightarrow> Movie option" where
  "getMovieByTmdbId tmdbId' d = first_row (where_rows (Some (eq_sql tmdbId tmdbId')) (movies d))"

text \<open>
  \<open>createMovie\<close>: \<open>id\<close> comes from the sequence, \<open>createdAt\<close> and \<open>updatedAt\<close> default to
  the clock, \<open>adult\<close> defaults to false. A sequence value is used up also by an insert
  that fails.
\<close>

definition createMovie :: "nat \<Rightarrow> InsertMovie \<Rightarrow> db \<Rightarrow> (db_error + Movie) \<times> db" where
  "createMovie now movie d =
     (let row = InsertMovie.extend
                  (movie\<lparr>adult := (case adult movie of None \<Rightarrow> Some False | Some a \<Rightarrow> Some a)\<rparr>)
                  (Movie.fields (movies_seq d + 1) (Some now) (Some now));
          d1 = d\<lparr>movies_seq := movies_seq d + 1\<rparr>
      in case insert_returning movies_unique row (movies d) of
           Inl e \<Rightarrow> (Inl e, d1)
         | Inr (createdMovie, rows) \<Rightarrow> (Inr createdMovie, d1\<lparr>movies := rows\<rparr>))"

section \<open>Watchlist, favorites and ratings\<close>

definition addToWatchlist :: "nat \<Rightarrow> string \<Rightarrow> int \<Rightarrow> db \<Rightarrow> Watchlist option \<times> db" where
  "addToWatchlist now userId movieId d =
     (let row = \<lparr>id_wl = watchlist_seq d + 1, userId_wl = userId, movieId_wl = movieId,
                 createdAt_wl = Some now\<rparr>;
          (watchlistItem, rows) = onConflictDoNothing watchlist_unique row (watchlist d)
      in (watchlistItem, d\<lparr>watchlist := rows, watchlist_seq := watchlist_seq d + 1\<rparr>))"

definition removeFromWatchlist :: "string \<Rightarrow> int \<Rightarrow> db \<Rightarrow> db" where
  "removeFromWatchlist userId movieId d =
     d\<lparr>watchlist :=
         delete_rows (and_sql [eq_sql userId_wl userId, eq_sql movieId_wl movieId]) (watchlist d)\<rparr>"

definition isInWatchlist :: "string \<Rightarrow> int \<Rightarrow> db \<Rightarrow> bool" where
  "isInWatchlist userId movieId d =
     (first_row (where_rows (Some (and_sql [eq_sql userId_wl userId, eq_sql movieId_wl movieId]))
        (watchlist d)) \<noteq> None)"

definition addToFavorites :: "nat \<Rightarrow> string \<Rightarrow> int \<Rightarrow> db \<Rightarrow> Favorite option \<times> db" where
  "addToFavorites now userId movieId d =
     (let row = \<lparr>id_fav = favorites_seq d + 1, userId_fav = userId, movieId_fav = movieId,
                 createdAt_fav = Some now\<rparr>;
          (favoriteItem, rows) = onConflictDoNothing favorites_unique row (favorites d)
      in (favoriteItem, d\<lparr>favorites := rows, favorites_seq := favorites_seq d + 1\<rparr>))"

definition removeFromFavorites :: "string \<Rightarrow> int \<Rightarrow> db \<Rightarrow> db" where
  "removeFromFavorites userId movieId d =
     d\<lparr>favorites :=
         delete_rows (and_sql [eq_sql userId_fav userId, eq_sql movieId_fav movieId]) (favorites d)\<rparr>"

definition isInFavorites :: "string \<Rightarrow> int \<Rightarrow> db \<Rightarrow> bool" where
  "isInFavorites userId movieId d =
     (first_row (where_rows (Some (and_sql [eq_sql userId_fav userId, eq_sql movieId_fav movieId]))
        (favorites d)) \<noteq> None)"

text \<open>
  \<open>rateMovie\<close>: an insert with \<open>onConflictDoUpdate\<close> on the target
  \<open>[ratings.userId, ratings.movieId]\<close>. The value is stored as given (the rounding of
  \<open>decimal(2, 1)\<close> is left out).
\<close>

definition rateMovie :: "nat \<Rightarrow> string \<Rightarrow> int \<Rightarrow> rat \<Rightarrow> db \<Rightarrow> db_error + (Rating \<times> db)" where
  "rateMovie now userId movieId rating d =
     (let row = \<lparr>id_rt = ratings_seq d + 1, userId_rt = userId, movieId_rt = movieId,
                 rating_rt = rating, createdAt_rt = Some now, updatedAt_rt = Some now\<rparr>
      in case onConflictDoUpdate ratings_unique [''user_id'', ''movie_id'']
                (\<lambda>old. old\<lparr>rating_rt := rating, updatedAt_rt := Some now\<rparr>) row (ratings d) of
           Inl e \<Rightarrow> Inl e
         | Inr (ratingItem, rows) \<Rightarrow>
             Inr (ratingItem, d\<lparr>ratings := rows, ratings_seq := ratings_seq d + 1\<rparr>))"

definition getUserRating :: "string \<Rightarrow> int \<Rightarrow> db \<Rightarrow> Rating option" where
  "getUserRating userId movieId d =
     first_row (where_rows (Some (and_sql [eq_sql userId_rt userId, eq_sql movieId_rt movieId]))
       (ratings d))"

section \<open>The sync routes (registerRoutes)\<close>

text \<open>
  \<open>TMDBMovie\<close> and \<open>TMDBResponse\<close> of the external API client. The fields of
  \<open>TMDBMovie\<close> whose names are columns of \<open>movies\<close> carry the suffix \<open>_tmdb\<close>.
\<close>

record TMDBMovie =
  id_tmdb :: int
  title_tmdb :: string
  overview_tmdb :: string
  poster_path :: "string option"
  backdrop_path :: "string option"
  release_date :: string
  runtime_tmdb :: "int option"
  vote_average :: rat
  vote_count :: int
  genres_tmdb :: "genre list"
  original_language :: string
  adult_tmdb :: bool
  popularity_tmdb :: rat
  video :: "bool option"

record TMDBResponse =
  page_tmdb :: int
  results :: "TMDBMovie list"
  total_pages :: int
  total_results :: int

text \<open>
  The object that the handlers pass to \<open>createMovie\<close>. The decimals are stored as given
  (the rounding to the scale of the column is left out).
\<close>

definition movie_values :: "TMDBMovie \<Rightarrow> InsertMovie" where
  "movie_values movieDetails =
     \<lparr>tmdbId = id_tmdb movieDetails,
      title = title_tmdb movieDetails,
      overview = Some (overview_tmdb movieDetails),
      posterPath = poster_path movieDetails,
      backdropPath = backdrop_path movieDetails,
      releaseDate = Some (release_date movieDetails),
      runtime = runtime_tmdb movieDetails,
      voteAverage = Some (vote_average movieDetails),
      voteCount = Some (vote_count movieDetails),
      genres = Some (genres_tmdb movieDetails),
      originalLanguage = Some (original_language movieDetails),
      adult = Some (adult_tmdb movieDetails),
      popularity = Some (popularity_tmdb movieDetails)\<rparr>"

text \<open>
  The loop of the three sync handlers (\<open>/api/tmdb/sync/popular\<close>, \<open>trending\<close>,
  \<open>bollywood\<close>), which differ in the listing they fetch and in their failure message.
  \<open>getMovieDetails\<close> is the external API (\<open>None\<close> when the request fails). An exception
  leaves the loop at once; the rows inserted before it stay, since no transaction
  encloses the loop.
\<close>

fun sync_loop ::
  "(int \<Rightarrow> TMDBMovie option) \<Rightarrow> nat \<Rightarrow> TMDBMovie list \<Rightarrow> Movie list \<Rightarrow> db
     \<Rightarrow> (db_error + Movie list) \<times> db" where
  "sync_loop getMovieDetails now [] syncedMovies d = (Inr syncedMovies, d)"
| "sync_loop getMovieDetails now (tmdbMovie # rest) syncedMovies d =
     (case getMovieByTmdbId (id_tmdb tmdbMovie) d of
        Some movie \<Rightarrow> sync_loop getMovieDetails now rest (syncedMovies @ [movie]) d
      | None \<Rightarrow>
          (case getMovieDetails (id_tmdb tmdbMovie) of
             None \<Rightarrow> (Inl FetchFailed, d)
           | Some movieDetails \<Rightarrow>
               (case createMovie now (movie_values movieDetails) d of
                  (Inl e, d1) \<Rightarrow> (Inl e, d1)
                | (Inr movie, d1) \<Rightarrow>
                    sync_loop getMovieDetails now rest (syncedMovies @ [movie]) d1)))"

text \<open>
  The response of a handler: \<open>{syncedMovies, total}\<close>, or status 500 with a message.
  \<open>listing\<close> is what the handler's listing request returns (\<open>None\<close> when it fails).
\<close>

datatype sync_response = Synced "Movie list" int | Status500 string

definition sync_handler ::
  "string \<Rightarrow> TMDBResponse option \<Rightarrow> (int \<Rightarrow> TMDBMovie option) \<Rightarrow> nat \<Rightarrow> db
     \<Rightarrow> sync_response \<times> db" where
  "sync_handler message listing getMovieDetails now d =
     (case listing of
        None \<Rightarrow> (Status500 message, d)
      | Some tmdbMovies \<Rightarrow>
          (case sync_loop getMovieDetails now (results tmdbMovies) [] d of
             (Inl e, d') \<Rightarrow> (Status500 message, d')
           | (Inr syncedMovies, d') \<Rightarrow> (Synced syncedMovies (total_results tmdbMovies), d')))"

definition sync_popular ::
  "TMDBResponse option \<Rightarrow> (int \<Rightarrow> TMDBMovie option) \<Rightarrow> nat \<Rightarrow> db \<Rightarrow> sync_response \<times> db" where
  "sync_popular = sync_handler ''Failed to sync popular movies''"

definition sync_trending ::
  "TMDBResponse option \<Rightarrow> (int \<Rightarrow> TMDBMovie option) \<Rightarrow> nat \<Rightarrow> db \<Rightarrow> sync_response \<times> db" where
  "sync_trending = sync_handler ''Failed to sync trending movies''"

definition sync_bollywood ::
  "TMDBResponse option \<Rightarrow> (int \<Rightarrow> TMDBMovie option) \<Rightarrow> nat \<Rightarrow> db \<Rightarrow> sync_response \<times> db" where
  "sync_bollywood = sync_handler ''Failed to sync Bollywood movies''"

section \<open>Sample data\<close>

text \<open>A small catalogue, a collation and filters, for evaluating the operations.\<close>

definition sample_engine :: engine where
  "sample_engine = \<lparr>text_le = (\<lambda>a b. length a \<le> length b)\<rparr>"

definition sample_movie :: "int \<Rightarrow> string \<Rightarrow> rat option \<Rightarrow> int option \<Rightarrow> Movie" where
  "sample_movie i t v r =
     \<lparr>tmdbId = 100 + i, title = t, overview = None, posterPath = None, backdropPath = None,
      releaseDate = None, runtime = r, voteAverage = v, voteCount = None,
      genres = Some [\<lparr>genre_id = 28, genre_name = ''Action''\<rparr>],
      originalLanguage = Some ''en'', adult = Some False, popularity = Some (of_int (10 - i)),
      id_mv = i, createdAt = Some 0, updatedAt = Some 0\<rparr>"

definition sample_A :: Movie where
  "sample_A = sample_movie 1 ''A'' (Some 8) (Some 100)"

definition sample_B :: Movie where
  "sample_B = sample_movie 2 ''B'' (Some (13 / 2)) (Some 80)"

definition sample_C :: Movie where
  "sample_C = sample_movie 3 ''C'' (Some 9) (Some 130)"

definition sample_D :: Movie where
  "sample_D = sample_movie 4 ''D'' None None"

definition sample_db :: db where
  "sample_db =
     \<lparr>movies = [sample_A, sample_B, sample_C, sample_D],
      movies_seq = 4,
      watchlist = [], watchlist_seq = 0,
      favorites = [], favorites_seq = 0,
      ratings = [], ratings_seq = 0\<rparr>"

definition no_filter :: MovieFilter where
  "no_filter =
     \<lparr>genres_f = None, regions = None, releaseYearFrom = None, releaseYearTo = None,
      ratingMin = None, ratingMax = None, runtime_f = None, ageRating = None,
      sortBy = None, sortOrder = None, page = 1, limit = 20\<rparr>"

text \<open>The filter of the spec's example, and further filters.\<close>

definition example_filter :: MovieFilter where
  "example_filter =
     no_filter\<lparr>ratingMin := Some 7, sortBy := Some Rating, sortOrder := Some Desc,
       page := 1, limit := 5\<rparr>"

definition first_page_of_two :: MovieFilter where
  "first_page_of_two = no_filter\<lparr>page := 1, limit := 2\<rparr>"

definition second_page_of_two :: MovieFilter where
  "second_page_of_two = no_filter\<lparr>page := 2, limit := 2\<rparr>"

definition negative_limit_filter :: MovieFilter where
  "negative_limit_filter = no_filter\<lparr>page := 1, limit := - 1\<rparr>"

definition empty_genres_filter :: MovieFilter where
  "empty_genres_filter = no_filter\<lparr>genres_f := Some []\<rparr>"

definition regions_filter :: MovieFilter where
  "regions_filter = no_filter\<lparr>regions := Some [''ko''], ageRating := Some [''G'']\<rparr>"

definition action_filter :: MovieFilter where
  "action_filter = no_filter\<lparr>genres_f := Some [28]\<rparr>"

definition since_2000_filter :: MovieFilter where
  "since_2000_filter = no_filter\<lparr>releaseYearFrom := Some 2000\<rparr>"

definition long_and_good_filter :: MovieFilter where
  "long_and_good_filter = no_filter\<lparr>ratingMin := Some 7, runtime_f := Some Over120\<rparr>"

definition short_filter :: MovieFilter where
  "short_filter = no_filter\<lparr>runtime_f := Some Under90\<rparr>"

text \<open>
  The condition of a present genre list in the spec's words ("a set-membership test
  against the movie's genre-id list"), for comparison with what \<open>getMovies\<close> does.
\<close>

definition spec_genre_condition :: "int list \<Rightarrow> Movie \<Rightarrow> bool" where
  "spec_genre_condition gs m =
     list_ex (\<lambda>g. g \<in> set (map genre_id (case genres m of None \<Rightarrow> [] | Some l \<Rightarrow> l))) gs"

text \<open>
  The numeric range of a runtime bucket in the words of the claim: \<open>under90\<close> is runtime
  below 90, \<open>90to120\<close> is runtime from 90 to 120, \<open>over120\<close> is runtime above 120, and
  \<open>any\<close> or no bucket is no condition. A movie without a runtime is in no range.
\<close>

definition spec_runtime_range :: "runtime_bucket option \<Rightarrow> Movie \<Rightarrow> bool" where
  "spec_runtime_range bucket m =
     (case bucket of
        None \<Rightarrow> True
      | Some Any \<Rightarrow> True
      | Some Under90 \<Rightarrow> (case runtime m of None \<Rightarrow> False | Some r \<Rightarrow> r < 90)
      | Some From90to120 \<Rightarrow> (case runtime m of None \<Rightarrow> False | Some r \<Rightarrow> 90 \<le> r \<and> r \<le> 120)
      | Some Over120 \<Rightarrow> (case runtime m of None \<Rightarrow> False | Some r \<Rightarrow> 120 < r))"

text \<open>Listings and details of the external API.\<close>

definition sample_item :: "int \<Rightarrow> string \<Rightarrow> TMDBMovie" where
  "sample_item i t =
     \<lparr>id_tmdb = i, title_tmdb = t, overview_tmdb = ''-'', poster_path = None,
      backdrop_path = None, release_date = ''2020-01-01'', runtime_tmdb = Some 95,
      vote_average = 7, vote_count = 10,
      genres_tmdb = [\<lparr>genre_id = 28, genre_name = ''Action''\<rparr>],
      original_language = ''en'', adult_tmdb = False, popularity_tmdb = 5, video = None\<rparr>"

definition resident_listing :: TMDBResponse where
  "resident_listing =
     \<lparr>page_tmdb = 1, results = [sample_item 101 ''A'', sample_item 103 ''C''],
      total_pages = 1, total_results = 2\<rparr>"

definition mixed_listing :: TMDBResponse where
  "mixed_listing =
     \<lparr>page_tmdb = 1, results = [sample_item 101 ''A'', sample_item 105 ''E''],
      total_pages = 1, total_results = 2\<rparr>"

definition failing_listing :: TMDBResponse where
  "failing_listing =
     \<lparr>page_tmdb = 1, results = [sample_item 105 ''E'', sample_item 106 ''F''],
      total_pages = 1, total_results = 2\<rparr>"

definition sample_details :: "int \<Rightarrow> TMDBMovie option" where
  "sample_details i = (if i = 105 then Some (sample_item 105 ''E'') else None)"

definition sample_E :: Movie where
  "sample_E =
     InsertMovie.extend (movie_values (sample_item 105 ''E'')) (Movie.fields 5 (Some 9) (Some 9))"

section \<open>Properties of the query layer\<close>

lemma and_sql_true: "and_sql cs r = Some True \<longleftrightarrow> list_all (\<lambda>c. c r = Some True) cs"
proof (induction cs)
  case Nil
  show ?case by (simp add: and_sql_def)
next
  case (Cons c cs)
  have step: "and2 a b = Some True \<longleftrightarrow> a = Some True \<and> b = Some True" for a b
    by (cases "(a, b)" rule: and2.cases) auto
  from Cons show ?case by (simp add: and_sql_def step)
qed

lemma or_sql_true: "or_sql cs r = Some True \<longleftrightarrow> list_ex (\<lambda>c. c r = Some True) cs"
proof (induction cs)
  case Nil
  show ?case by (simp add: or_sql_def)
next
  case (Cons c cs)
  have step: "or2 a b = Some True \<longleftrightarrow> a = Some True \<or> b = Some True" for a b
    by (cases "(a, b)" rule: or2.cases) auto
  from Cons show ?case by (simp add: or_sql_def step)
qed

lemma insert_row_set: "set (insert_row prec x ys) = insert x (set ys)"
  by (induction ys) auto

lemma insert_row_length: "length (insert_row prec x ys) = Suc (length ys)"
  by (induction ys) auto

lemma order_rows_set: "set (order_rows prec rows) = set rows"
  by (induction rows) (auto simp: order_rows_def insert_row_set)

lemma order_rows_length: "length (order_rows prec rows) = length rows"
  by (induction rows) (auto simp: order_rows_def insert_row_length)

lemma insert_row_sorted:
  assumes total: "\<And>a b. prec a b \<or> prec b a"
    and trans: "\<And>a b c. prec a b \<Longrightarrow> prec b c \<Longrightarrow> prec a c"
  shows "sorted_wrt prec ys \<Longrightarrow> sorted_wrt prec (insert_row prec x ys)"
proof (induction ys)
  case Nil
  show ?case by simp
next
  case (Cons y ys)
  show ?case
  proof (cases "prec x y")
    case True
    with Cons.prems trans show ?thesis by auto
  next
    case False
    with total have "prec y x" by blast
    with Cons False show ?thesis by (auto simp: insert_row_set)
  qed
qed

lemma order_rows_sorted:
  assumes total: "\<And>a b. prec a b \<or> prec b a"
    and trans: "\<And>a b c. prec a b \<Longrightarrow> prec b c \<Longrightarrow> prec a c"
  shows "sorted_wrt prec (order_rows prec rows)"
proof (induction rows)
  case Nil
  show ?case by (simp add: order_rows_def)
next
  case (Cons r rows)
  have "order_rows prec (r # rows) = insert_row prec r (order_rows prec rows)"
    by (simp add: order_rows_def)
  with Cons insert_row_sorted [OF total trans] show ?case by simp
qed

lemma null_high_total: "null_high (\<le>) (a :: 'a::linorder option) b \<or> null_high (\<le>) b a"
  by (cases "((\<le>) :: 'a \<Rightarrow> 'a \<Rightarrow> bool, a, b)" rule: null_high.cases) auto

lemma null_high_trans:
  "null_high (\<le>) (a :: 'a::linorder option) b \<Longrightarrow> null_high (\<le>) b c \<Longrightarrow> null_high (\<le>) a c"
  by (cases a; cases b; cases c) auto



lemma holds_Conj: "holds (Conj ws) m = Some True \<longleftrightarrow> list_all (\<lambda>w. holds w m = Some True) ws"
  by (simp add: and_sql_true list_all_iff)

lemma holds_Disj: "holds (Disj ws) m = Some True \<longleftrightarrow> list_ex (\<lambda>w. holds w m = Some True) ws"
  by (simp add: or_sql_true list_ex_iff)

text \<open>
  The filters whose query PostgreSQL rejects: those that push a genre or a release-year
  condition.
\<close>

lemma rejected_whereCondition:
  "rejected (whereCondition filters) = [] \<longleftrightarrow>
     (genres_f filters = None \<or> genres_f filters = Some [])
     \<and> truthy (releaseYearFrom filters) = None \<and> truthy (releaseYearTo filters) = None"
  by (auto simp: rejected_def whereCondition_def conditions_def Let_def
        split: option.splits runtime_bucket.splits)

lemma where_rows_selected:
  "where_rows (map_option holds (whereCondition filters)) rows = filter (selected filters) rows"
  by (cases "whereCondition filters") (auto simp: where_rows_def selected_def intro!: filter_cong)

lemma selected_conditions:
  "selected filters m \<longleftrightarrow> list_all (\<lambda>w. holds w m = Some True) (conditions filters)"
  by (cases "conditions filters") (simp_all add: selected_def whereCondition_def Let_def and_sql_true list_all_iff)

lemma getMovies_Inr:
  assumes "getMovies eng filters d = Inr (ms, n)"
  shows "ms = limit_rows (Some (limit_of filters)) (drop (nat (offset_of filters))
               (order_rows (ordering eng filters) (filter (selected filters) (movies d))))"
    and "n = length (filter (selected filters) (movies d))"
    and "0 \<le> offset_of filters"
    and "rejected (whereCondition filters) = []"
proof -
  from assms obtain c where r: "run_query (select_from\<lparr>where_q := whereCondition filters,
                    orderBy_q := Some (ordering eng filters),
                    limit_q := Some (limit_of filters),
                    offset_q := Some (offset_of filters)\<rparr>) (movies d) = Inr ms"
    and c: "run_count (whereCondition filters) (movies d) = Inr n"
    by (auto simp: getMovies_def Let_def split: sum.splits)
  from c show rej: "rejected (whereCondition filters) = []"
    by (auto simp: run_count_def split: list.splits)
  from c rej show "n = length (filter (selected filters) (movies d))"
    by (simp add: run_count_def where_rows_selected)
  from r rej show "0 \<le> offset_of filters"
    by (auto simp: run_query_def select_from_def Let_def split: if_splits)
  from r rej show "ms = limit_rows (Some (limit_of filters)) (drop (nat (offset_of filters))
               (order_rows (ordering eng filters) (filter (selected filters) (movies d))))"
    by (auto simp: run_query_def select_from_def Let_def where_rows_selected split: if_splits)
qed

text \<open>
  The call returns exactly when the filter pushes no genre and no release-year condition
  and the offset is not negative.
\<close>

lemma getMovies_returns:
  "(\<exists>ms n. getMovies eng filters d = Inr (ms, n)) \<longleftrightarrow>
     rejected (whereCondition filters) = [] \<and> 0 \<le> offset_of filters"
proof
  assume "\<exists>ms n. getMovies eng filters d = Inr (ms, n)"
  then show "rejected (whereCondition filters) = [] \<and> 0 \<le> offset_of filters"
    using getMovies_Inr(3,4) by blast
next
  assume "rejected (whereCondition filters) = [] \<and> 0 \<le> offset_of filters"
  then show "\<exists>ms n. getMovies eng filters d = Inr (ms, n)"
    by (simp add: getMovies_def Let_def select_from_def run_query_def run_count_def)
qed

lemma limit_rows_subset: "set (limit_rows l rows) \<subseteq> set rows"
  by (auto simp: limit_rows_def split: option.splits dest: in_set_takeD)

lemma limit_rows_length: "length (limit_rows l rows) \<le> length rows"
  by (simp add: limit_rows_def split: option.splits)

lemma getMovies_page_subset:
  assumes "getMovies eng filters d = Inr (ms, n)"
  shows "set ms \<subseteq> set (filter (selected filters) (movies d))" and "length ms \<le> n"
proof -
  let ?all = "order_rows (ordering eng filters) (filter (selected filters) (movies d))"
  note r = getMovies_Inr(1,2) [OF assms]
  have "set ms \<subseteq> set (drop (nat (offset_of filters)) ?all)"
    unfolding r(1) by (rule limit_rows_subset)
  also have "\<dots> \<subseteq> set ?all" by (rule set_drop_subset)
  finally show "set ms \<subseteq> set (filter (selected filters) (movies d))"
    by (simp add: order_rows_set)
  have "length ms \<le> length (drop (nat (offset_of filters)) ?all)"
    unfolding r(1) by (rule limit_rows_length)
  also have "\<dots> \<le> length ?all" by simp
  finally show "length ms \<le> n" by (simp add: r(2) order_rows_length)
qed

text \<open>The sample catalogue under the sample filters.\<close>

lemma sample_first_page:
  "getMovies sample_engine first_page_of_two sample_db = Inr ([sample_A, sample_B], 4)"
  by (simp add: first_page_of_two_def getMovies_def Let_def select_from_def run_query_def run_count_def rejected_def
      where_rows_def limit_rows_def whereCondition_def conditions_def truthy_def no_filter_def
      offset_of_def limit_of_def page_of_def sample_db_def order_rows_def ordering_def
      desc_def gte_def lte_def lt_sql_def gt_sql_def and_sql_def
      sample_A_def sample_B_def sample_C_def sample_D_def sample_movie_def)

lemma sample_second_page:
  "getMovies sample_engine second_page_of_two sample_db = Inr ([sample_C, sample_D], 4)"
  by (simp add: second_page_of_two_def getMovies_def Let_def select_from_def run_query_def run_count_def rejected_def
      where_rows_def limit_rows_def whereCondition_def conditions_def truthy_def no_filter_def
      offset_of_def limit_of_def page_of_def sample_db_def order_rows_def ordering_def
      desc_def gte_def lte_def lt_sql_def gt_sql_def and_sql_def
      sample_A_def sample_B_def sample_C_def sample_D_def sample_movie_def)

lemma sample_negative_limit:
  "getMovies sample_engine negative_limit_filter sample_db
     = Inr ([sample_A, sample_B, sample_C, sample_D], 4)"
  by (simp add: negative_limit_filter_def getMovies_def Let_def select_from_def run_query_def run_count_def rejected_def
      where_rows_def limit_rows_def whereCondition_def conditions_def truthy_def no_filter_def
      offset_of_def limit_of_def page_of_def sample_db_def order_rows_def ordering_def
      desc_def gte_def lte_def lt_sql_def gt_sql_def and_sql_def
      sample_A_def sample_B_def sample_C_def sample_D_def sample_movie_def)

lemma sample_example:
  "getMovies sample_engine example_filter sample_db = Inr ([sample_C, sample_A], 2)"
  by (simp add: example_filter_def getMovies_def Let_def select_from_def run_query_def run_count_def rejected_def
      where_rows_def limit_rows_def whereCondition_def conditions_def truthy_def no_filter_def
      offset_of_def limit_of_def page_of_def sample_db_def order_rows_def ordering_def
      desc_def gte_def lte_def lt_sql_def gt_sql_def and_sql_def
      sample_A_def sample_B_def sample_C_def sample_D_def sample_movie_def)

lemma sample_long_and_good:
  "getMovies sample_engine long_and_good_filter sample_db = Inr ([sample_C], 1)"
  by (simp add: long_and_good_filter_def getMovies_def Let_def select_from_def run_query_def run_count_def rejected_def
      where_rows_def limit_rows_def whereCondition_def conditions_def truthy_def no_filter_def
      offset_of_def limit_of_def page_of_def sample_db_def order_rows_def ordering_def
      desc_def gte_def lte_def lt_sql_def gt_sql_def and_sql_def
      sample_A_def sample_B_def sample_C_def sample_D_def sample_movie_def)

lemma sample_short:
  "getMovies sample_engine short_filter sample_db = Inr ([sample_B], 1)"
  by (simp add: short_filter_def getMovies_def Let_def select_from_def run_query_def run_count_def rejected_def
      where_rows_def limit_rows_def whereCondition_def conditions_def truthy_def no_filter_def
      offset_of_def limit_of_def page_of_def sample_db_def order_rows_def ordering_def
      desc_def gte_def lte_def lt_sql_def gt_sql_def and_sql_def
      sample_A_def sample_B_def sample_C_def sample_D_def sample_movie_def)

text \<open>A genre list that is not empty and a release-year bound that is not 0 make the
  database reject both queries.\<close>

lemma sample_genre_and_year_rejected:
  "getMovies sample_engine action_filter sample_db = Inl (UndefinedFunction ''JSON_SEARCH'')"
  "getMovies sample_engine since_2000_filter sample_db = Inl (UndefinedFunction ''YEAR'')"
  by (simp_all add: action_filter_def since_2000_filter_def getMovies_def Let_def select_from_def run_query_def run_count_def rejected_def
      where_rows_def limit_rows_def whereCondition_def conditions_def truthy_def no_filter_def
      offset_of_def limit_of_def page_of_def sample_db_def order_rows_def ordering_def
      desc_def gte_def lte_def lt_sql_def gt_sql_def and_sql_def
      sample_A_def sample_B_def sample_C_def sample_D_def sample_movie_def)

section \<open>getMovies: page size and total\<close>

text \<open>
  Claim C1, as stated, fails for a negative limit: the query builder drops it, the page
  is not limited, and \<open>{page: 1, limit: -1}\<close> returns all four movies.
\<close>

theorem getMovies_negative_limit_counterexample:
  "limit negative_limit_filter = - 1
   \<and> getMovies sample_engine negative_limit_filter sample_db
        = Inr ([sample_A, sample_B, sample_C, sample_D], 4)
   \<and> \<not> int (length [sample_A, sample_B, sample_C, sample_D]) \<le> limit negative_limit_filter"
  using sample_negative_limit by (simp add: negative_limit_filter_def no_filter_def)

text \<open>
  Claim C1, amended. Whenever \<open>getMovies\<close> returns: for a limit that is not negative the
  page has at most \<open>limit\<close> movies (20 when \<open>limit\<close> is 0); for every limit the total is
  the number of all movies the WHERE clause selects, without pagination, and the page
  consists of selected movies and is no longer than the total.
\<close>

theorem getMovies_page_within_limit_and_total:
  assumes "getMovies eng filters d = Inr (ms, n)"
  shows "(0 \<le> limit filters \<longrightarrow>
            int (length ms) \<le> (if limit filters = 0 then 20 else limit filters))
       \<and> n = length (filter (selected filters) (movies d))
       \<and> set ms \<subseteq> set (filter (selected filters) (movies d))
       \<and> length ms \<le> n"
proof -
  have a: "int (length ms) \<le> (if limit filters = 0 then 20 else limit filters)"
    if "0 \<le> limit filters"
  proof -
    from that have l: "0 \<le> limit_of filters" by (simp add: limit_of_def)
    with getMovies_Inr(1) [OF assms] have "length ms \<le> nat (limit_of filters)"
      by (simp add: limit_rows_def)
    with l show ?thesis by (simp add: limit_of_def split: if_splits)
  qed
  from a getMovies_Inr(2) [OF assms] getMovies_page_subset [OF assms] show ?thesis by blast
qed

theorem getMovies_page_within_limit_and_total_witness:
  "0 \<le> limit first_page_of_two
   \<and> getMovies sample_engine first_page_of_two sample_db = Inr ([sample_A, sample_B], 4)
   \<and> int (length [sample_A, sample_B]) \<le> 2
   \<and> (4::nat) = length (filter (selected first_page_of_two) (movies sample_db))"
  using getMovies_page_within_limit_and_total [OF sample_first_page] sample_first_page
  by (simp add: first_page_of_two_def no_filter_def)

section \<open>getMovies: pagination\<close>

text \<open>
  Claim C5, as stated, fails: the offset is not \<open>page * limit\<close>. For page 1 of size 2
  the call returns the first two movies A and B, where skipping \<open>1 * 2\<close> rows would give
  C and D.
\<close>

theorem getMovies_offset_counterexample:
  "getMovies sample_engine first_page_of_two sample_db = Inr ([sample_A, sample_B], 4)
   \<and> take (nat (limit first_page_of_two))
        (drop (nat (page first_page_of_two * limit first_page_of_two))
          (order_rows (ordering sample_engine first_page_of_two)
            (filter (selected first_page_of_two) (movies sample_db))))
       = [sample_C, sample_D]
   \<and> [sample_A, sample_B] \<noteq> [sample_C, sample_D]"
  by (simp add: first_page_of_two_def selected_def holds_Conj getMovies_def Let_def select_from_def run_query_def run_count_def rejected_def
      where_rows_def limit_rows_def whereCondition_def conditions_def truthy_def no_filter_def
      offset_of_def limit_of_def page_of_def sample_db_def order_rows_def ordering_def
      desc_def gte_def lte_def lt_sql_def gt_sql_def and_sql_def
      sample_A_def sample_B_def sample_C_def sample_D_def sample_movie_def)

text \<open>
  Claim C5, amended. Whenever \<open>getMovies\<close> returns, the page skips the first
  \<open>(page - 1) * limit\<close> selected rows in the requested order (page 1 when \<open>page\<close> is 0,
  limit 20 when \<open>limit\<close> is 0), this offset is not negative, and the page takes the next
  \<open>limit\<close> rows (all remaining rows when the limit is negative); the total counts the
  rows of the same selection.
\<close>

theorem getMovies_page_offset:
  assumes "getMovies eng filters d = Inr (ms, n)"
  shows "ms = (let s = (if limit filters = 0 then 20 else limit filters);
                   p = (if page filters = 0 then 1 else page filters);
                   rest = drop (nat ((p - 1) * s))
                            (order_rows (ordering eng filters)
                               (filter (selected filters) (movies d)))
               in if 0 \<le> s then take (nat s) rest else rest)
       \<and> 0 \<le> ((if page filters = 0 then 1 else page filters) - 1)
                * (if limit filters = 0 then 20 else limit filters)
       \<and> n = length (filter (selected filters) (movies d))"
  using getMovies_Inr(1,2,3) [OF assms]
  by (simp add: limit_rows_def limit_of_def offset_of_def page_of_def Let_def)

theorem getMovies_page_offset_witness:
  "getMovies sample_engine second_page_of_two sample_db = Inr ([sample_C, sample_D], 4)
   \<and> [sample_C, sample_D] = take 2 (drop 2
         (order_rows (ordering sample_engine second_page_of_two)
            (filter (selected second_page_of_two) (movies sample_db))))
   \<and> order_rows (ordering sample_engine second_page_of_two)
            (filter (selected second_page_of_two) (movies sample_db))
       = [sample_A, sample_B, sample_C, sample_D]"
proof -
  have o: "order_rows (ordering sample_engine second_page_of_two)
            (filter (selected second_page_of_two) (movies sample_db))
       = [sample_A, sample_B, sample_C, sample_D]"
    by (simp add: second_page_of_two_def selected_def holds_Conj getMovies_def Let_def select_from_def run_query_def run_count_def rejected_def
      where_rows_def limit_rows_def whereCondition_def conditions_def truthy_def no_filter_def
      offset_of_def limit_of_def page_of_def sample_db_def order_rows_def ordering_def
      desc_def gte_def lte_def lt_sql_def gt_sql_def and_sql_def
      sample_A_def sample_B_def sample_C_def sample_D_def sample_movie_def)
  from getMovies_page_offset [OF sample_second_page] sample_second_page o
  show ?thesis by (simp add: second_page_of_two_def no_filter_def)
qed

section \<open>getMovies: the example of the spec\<close>

lemma example_conditions: "conditions example_filter = [Test (gte voteAverage 7)]"
  by (simp add: conditions_def example_filter_def no_filter_def truthy_def)

lemma example_ordering: "ordering eng example_filter = desc (\<le>) voteAverage"
  by (simp add: ordering_def example_filter_def no_filter_def)

text \<open>
  Claim C6. For the filter \<open>{ratingMin: 7, sortBy: "rating", sortOrder: "desc", page: 1,
  limit: 5}\<close>, on every catalogue, \<open>getMovies\<close> returns at most 5 movies, each with an
  average rating of at least 7, in descending order of average rating.
\<close>

theorem getMovies_example:
  "\<exists>ms n. getMovies eng example_filter d = Inr (ms, n)
     \<and> length ms \<le> 5
     \<and> (\<forall>m \<in> set ms. \<exists>v. voteAverage m = Some v \<and> 7 \<le> v)
     \<and> sorted_wrt (\<lambda>a b. \<exists>x y. voteAverage a = Some x \<and> voteAverage b = Some y \<and> y \<le> x) ms"
proof -
  have lim: "limit_of example_filter = 5" and off: "offset_of example_filter = 0"
    by (simp_all add: limit_of_def offset_of_def page_of_def example_filter_def no_filter_def)
  have "rejected (whereCondition example_filter) = []"
    by (simp add: rejected_def whereCondition_def example_conditions)
  with off obtain ms n where r: "getMovies eng example_filter d = Inr (ms, n)"
    using getMovies_returns [of eng example_filter d] by auto
  let ?rows = "filter (selected example_filter) (movies d)"
  let ?all = "order_rows (desc (\<le>) voteAverage) ?rows"
  from getMovies_Inr(1) [OF r]
  have ms: "ms = take 5 ?all"
    by (simp add: lim off limit_rows_def example_ordering)
  have len: "length ms \<le> 5" by (simp add: ms)
  have sel: "\<exists>v. voteAverage m = Some v \<and> 7 \<le> v" if "m \<in> set ?all" for m
  proof -
    from that have "selected example_filter m" by (simp add: order_rows_set)
    then show ?thesis
      by (auto simp: selected_conditions example_conditions gte_def)
  qed
  have sub: "set ms \<subseteq> set ?all" unfolding ms by (rule set_take_subset)
  have "sorted_wrt (desc (\<le>) voteAverage) ?all"
    by (rule order_rows_sorted) (auto simp: desc_def null_high_total intro: null_high_trans)
  then have "sorted_wrt (desc (\<le>) voteAverage) ms"
    unfolding ms by (rule sorted_wrt_take)
  then have "sorted_wrt (\<lambda>a b. \<exists>x y. voteAverage a = Some x \<and> voteAverage b = Some y \<and> y \<le> x) ms"
  proof (rule sorted_wrt_mono_rel [rotated])
    fix a b
    assume "a \<in> set ms" "b \<in> set ms" "desc (\<le>) voteAverage a b"
    then have ab: "a \<in> set ?all" "b \<in> set ?all" and o: "null_high (\<le>) (voteAverage b) (voteAverage a)"
      using sub by (auto simp: desc_def)
    from sel [OF ab(1)] obtain x where x: "voteAverage a = Some x" by blast
    from sel [OF ab(2)] obtain y where y: "voteAverage b = Some y" by blast
    from o x y have "y \<le> x" by simp
    with x y show "\<exists>x y. voteAverage a = Some x \<and> voteAverage b = Some y \<and> y \<le> x"
      by blast
  qed
  with r len sel sub show ?thesis by blast
qed

theorem getMovies_example_witness:
  "getMovies sample_engine example_filter sample_db = Inr ([sample_C, sample_A], 2)
   \<and> voteAverage sample_C = Some 9 \<and> voteAverage sample_A = Some 8
   \<and> sorted_wrt (\<lambda>a b. \<exists>x y. voteAverage a = Some x \<and> voteAverage b = Some y \<and> y \<le> x)
        [sample_C, sample_A]"
  using getMovies_example [of sample_engine sample_db] sample_example
  by (auto simp: sample_A_def sample_C_def sample_movie_def)

section \<open>getMovies: runtime buckets and zero bounds\<close>

lemma selected_runtime:
  "selected filters m \<longleftrightarrow>
     selected (filters\<lparr>runtime_f := None\<rparr>) m \<and> spec_runtime_range (runtime_f filters) m"
proof -
  let ?bucket = "case runtime_f filters of
          Some Under90 \<Rightarrow> [Test (lt_sql runtime 90)]
        | Some From90to120 \<Rightarrow> [Conj [Test (gte runtime 90), Test (lte runtime 120)]]
        | Some Over120 \<Rightarrow> [Test (gt_sql runtime 120)]
        | _ \<Rightarrow> []"
  have split: "conditions filters = conditions (filters\<lparr>runtime_f := None\<rparr>) @ ?bucket"
    by (simp add: conditions_def)
  have "list_all (\<lambda>w. holds w m = Some True) ?bucket \<longleftrightarrow> spec_runtime_range (runtime_f filters) m"
    by (auto simp: spec_runtime_range_def and_sql_true lt_sql_def gt_sql_def gte_def lte_def
          split: option.splits runtime_bucket.splits)
  then show ?thesis
    by (simp add: selected_conditions split)
qed

lemma whereCondition_runtime:
  "rejected (whereCondition (filters\<lparr>runtime_f := b\<rparr>)) = [] \<longleftrightarrow>
     rejected (whereCondition filters) = []"
  by (simp add: rejected_whereCondition)

text \<open>
  Claim C8. A movie is selected under a filter exactly when it is selected under the same
  filter without the runtime bucket and its runtime is in the bucket's range:
  \<open>under90\<close> is runtime below 90, \<open>90to120\<close> is runtime from 90 to 120 inclusive,
  \<open>over120\<close> is runtime above 120; \<open>any\<close> and no bucket add no condition, so both
  give the same conditions and the same result. A call with a bucket is the call
  without it on the catalogue of the movies in the bucket's range. Whenever
  \<open>getMovies\<close> returns, every returned movie is in the range, the page is cut from the
  selected movies in the range, and the total counts them.
\<close>

theorem runtime_bucket_ranges:
  "(selected filters m \<longleftrightarrow>
      selected (filters\<lparr>runtime_f := None\<rparr>) m \<and> spec_runtime_range (runtime_f filters) m)
   \<and> conditions (filters\<lparr>runtime_f := Some Any\<rparr>) = conditions (filters\<lparr>runtime_f := None\<rparr>)
   \<and> getMovies eng (filters\<lparr>runtime_f := Some Any\<rparr>) d
       = getMovies eng (filters\<lparr>runtime_f := None\<rparr>) d
   \<and> getMovies eng filters d
       = getMovies eng (filters\<lparr>runtime_f := None\<rparr>)
           (d\<lparr>movies := filter (spec_runtime_range (runtime_f filters)) (movies d)\<rparr>)
   \<and> (getMovies eng filters d = Inr (ms, n) \<longrightarrow>
        (\<forall>m \<in> set ms. spec_runtime_range (runtime_f filters) m)
        \<and> ms = limit_rows (Some (limit_of filters)) (drop (nat (offset_of filters))
                 (order_rows (ordering eng filters)
                    (filter (\<lambda>m. selected (filters\<lparr>runtime_f := None\<rparr>) m
                                 \<and> spec_runtime_range (runtime_f filters) m) (movies d))))
        \<and> n = length (filter (\<lambda>m. selected (filters\<lparr>runtime_f := None\<rparr>) m
                                 \<and> spec_runtime_range (runtime_f filters) m) (movies d)))"
proof -
  let ?f0 = "filters\<lparr>runtime_f := None\<rparr>"
  let ?in = "spec_runtime_range (runtime_f filters)"
  have sel: "selected filters = (\<lambda>m. selected ?f0 m \<and> ?in m)"
    by (rule ext) (rule selected_runtime)
  have b: "conditions (filters\<lparr>runtime_f := Some Any\<rparr>) = conditions ?f0"
    by (simp add: conditions_def)
  have c: "getMovies eng (filters\<lparr>runtime_f := Some Any\<rparr>) d = getMovies eng ?f0 d"
    by (simp add: getMovies_def whereCondition_def b ordering_def limit_of_def offset_of_def page_of_def)
  have par: "ordering eng ?f0 = ordering eng filters" "limit_of ?f0 = limit_of filters"
    "offset_of ?f0 = offset_of filters"
    by (simp_all add: ordering_def limit_of_def offset_of_def page_of_def)
  have rej: "rejected (whereCondition ?f0) = [] \<longleftrightarrow> rejected (whereCondition filters) = []"
    by (rule whereCondition_runtime)
  have fl: "filter (\<lambda>x. ?in x \<and> selected ?f0 x) (movies d) = filter (selected filters) (movies d)"
    by (rule filter_cong, simp, metis selected_runtime)
  have e: "getMovies eng filters d = getMovies eng ?f0 (d\<lparr>movies := filter ?in (movies d)\<rparr>)"
  proof (cases "rejected (whereCondition filters)")
    case Nil
    with rej have r0: "rejected (whereCondition ?f0) = []" by simp
    show ?thesis
      unfolding getMovies_def Let_def run_query_def run_count_def
      by (simp add: Nil r0 select_from_def where_rows_selected par fl)
  next
    case (Cons g gs)
    have same: "rejected (whereCondition ?f0) = rejected (whereCondition filters)"
      by (auto simp: rejected_def whereCondition_def conditions_def Let_def
            split: option.splits runtime_bucket.splits)
    show ?thesis
      unfolding getMovies_def Let_def run_query_def run_count_def
      by (simp add: Cons same select_from_def)
  qed
  have p: "(\<forall>m \<in> set ms. ?in m)
        \<and> ms = limit_rows (Some (limit_of filters)) (drop (nat (offset_of filters))
                 (order_rows (ordering eng filters)
                    (filter (\<lambda>m. selected ?f0 m \<and> ?in m) (movies d))))
        \<and> n = length (filter (\<lambda>m. selected ?f0 m \<and> ?in m) (movies d))"
    if r: "getMovies eng filters d = Inr (ms, n)"
  proof -
    have fs: "filter (selected filters) (movies d)
                = filter (\<lambda>m. selected ?f0 m \<and> ?in m) (movies d)"
      by (rule filter_cong, simp, metis selected_runtime)
    from getMovies_page_subset(1) [OF r] have "\<forall>m \<in> set ms. selected filters m"
      by auto
    then have "\<forall>m \<in> set ms. ?in m"
      using selected_runtime [of filters] by blast
    with getMovies_Inr(1,2) [OF r] show ?thesis unfolding fs by blast
  qed
  from selected_runtime [of filters m] b c e p show ?thesis by blast
qed

theorem runtime_bucket_ranges_witness:
  "getMovies sample_engine short_filter sample_db = Inr ([sample_B], 1)
   \<and> runtime_f short_filter = Some Under90
   \<and> runtime sample_B = Some 80
   \<and> spec_runtime_range (Some Under90) sample_B
   \<and> \<not> spec_runtime_range (Some Under90) sample_A
   \<and> \<not> spec_runtime_range (Some Under90) sample_D
   \<and> (1::nat) = length (filter (\<lambda>m. selected (short_filter\<lparr>runtime_f := None\<rparr>) m
                                 \<and> spec_runtime_range (runtime_f short_filter) m)
                         (movies sample_db))"
proof -
  have f: "runtime_f short_filter = Some Under90"
    by (simp add: short_filter_def no_filter_def)
  have m: "runtime sample_B = Some 80" "runtime sample_A = Some 100" "runtime sample_D = None"
    by (simp_all add: sample_A_def sample_B_def sample_D_def sample_movie_def)
  from runtime_bucket_ranges [of short_filter sample_B sample_engine sample_db "[sample_B]" 1]
       sample_short f m
  show ?thesis by (simp add: spec_runtime_range_def)
qed

text \<open>
  Claim C10. A rating or release-year bound of 0 is treated as absent: \<open>getMovies\<close>
  returns what it returns without the bound. On the sample catalogue \<open>{ratingMax: 0}\<close>
  returns all four movies, not only those rated at most 0.
\<close>

theorem zero_bound_is_absent:
  "getMovies eng (filters\<lparr>ratingMax := Some 0\<rparr>) d = getMovies eng (filters\<lparr>ratingMax := None\<rparr>) d
   \<and> getMovies eng (filters\<lparr>ratingMin := Some 0\<rparr>) d = getMovies eng (filters\<lparr>ratingMin := None\<rparr>) d
   \<and> getMovies eng (filters\<lparr>releaseYearFrom := Some 0\<rparr>) d = getMovies eng (filters\<lparr>releaseYearFrom := None\<rparr>) d
   \<and> getMovies eng (filters\<lparr>releaseYearTo := Some 0\<rparr>) d = getMovies eng (filters\<lparr>releaseYearTo := None\<rparr>) d
   \<and> getMovies sample_engine (no_filter\<lparr>ratingMax := Some 0\<rparr>) sample_db
       = Inr ([sample_A, sample_B, sample_C, sample_D], 4)"
proof -
  have a: "getMovies eng (filters\<lparr>ratingMax := Some 0\<rparr>) d = getMovies eng (filters\<lparr>ratingMax := None\<rparr>) d"
    by (simp add: getMovies_def whereCondition_def conditions_def truthy_def ordering_def
          limit_of_def offset_of_def page_of_def)
  have b: "getMovies eng (filters\<lparr>ratingMin := Some 0\<rparr>) d = getMovies eng (filters\<lparr>ratingMin := None\<rparr>) d"
    by (simp add: getMovies_def whereCondition_def conditions_def truthy_def ordering_def
          limit_of_def offset_of_def page_of_def)
  have c: "getMovies eng (filters\<lparr>releaseYearFrom := Some 0\<rparr>) d = getMovies eng (filters\<lparr>releaseYearFrom := None\<rparr>) d"
    by (simp add: getMovies_def whereCondition_def conditions_def truthy_def ordering_def
          limit_of_def offset_of_def page_of_def)
  have e: "getMovies eng (filters\<lparr>releaseYearTo := Some 0\<rparr>) d = getMovies eng (filters\<lparr>releaseYearTo := None\<rparr>) d"
    by (simp add: getMovies_def whereCondition_def conditions_def truthy_def ordering_def
          limit_of_def offset_of_def page_of_def)
  have f: "getMovies sample_engine (no_filter\<lparr>ratingMax := Some 0\<rparr>) sample_db
       = Inr ([sample_A, sample_B, sample_C, sample_D], 4)"
    by (simp add: getMovies_def Let_def select_from_def run_query_def run_count_def rejected_def
      where_rows_def limit_rows_def whereCondition_def conditions_def truthy_def no_filter_def
      offset_of_def limit_of_def page_of_def sample_db_def order_rows_def ordering_def
      desc_def gte_def lte_def lt_sql_def gt_sql_def and_sql_def
      sample_A_def sample_B_def sample_C_def sample_D_def sample_movie_def)
  from a b c e f show ?thesis by blast
qed

section \<open>getMovies: the selection predicate\<close>

text \<open>
  Claim C2, as stated, fails: a field that is present need not contribute a condition.
  The filter \<open>{genres: []}\<close> has the genre list present, the guard
  \<open>filters.genres.length > 0\<close> pushes no condition for it, and movie A is returned
  although no genre id of A is a member of the empty list. The filter
  \<open>{regions: ["ko"], ageRating: ["G"]}\<close> has both lists present, \<open>getMovies\<close> reads
  neither field, no condition is pushed, and all four movies (original language
  \<open>en\<close>) are returned.
\<close>

theorem present_field_counterexample:
  "genres_f empty_genres_filter = Some []
   \<and> conditions empty_genres_filter = []
   \<and> getMovies sample_engine empty_genres_filter sample_db
        = Inr ([sample_A, sample_B, sample_C, sample_D], 4)
   \<and> \<not> spec_genre_condition [] sample_A
   \<and> regions regions_filter = Some [''ko'']
   \<and> ageRating regions_filter = Some [''G'']
   \<and> conditions regions_filter = []
   \<and> getMovies sample_engine regions_filter sample_db
        = Inr ([sample_A, sample_B, sample_C, sample_D], 4)
   \<and> originalLanguage sample_A = Some ''en''"
  by (simp add: empty_genres_filter_def regions_filter_def spec_genre_condition_def getMovies_def Let_def select_from_def run_query_def run_count_def rejected_def
      where_rows_def limit_rows_def whereCondition_def conditions_def truthy_def no_filter_def
      offset_of_def limit_of_def page_of_def sample_db_def order_rows_def ordering_def
      desc_def gte_def lte_def lt_sql_def gt_sql_def and_sql_def
      sample_A_def sample_B_def sample_C_def sample_D_def sample_movie_def)

text \<open>
  Claim C2, amended. Take a filter without \<open>regions\<close> and \<open>ageRating\<close> whose genre list
  is absent or empty and whose release-year bounds are absent or 0. A movie is selected
  exactly when it satisfies one condition for each effective field: a rating bound that
  is not 0 (the movie has an average rating, and it is within the bound) and a runtime
  bucket other than \<open>any\<close> (the movie has a runtime, and it is in the bucket's range).
  An absent field, an empty genre list, a bound of 0 and the bucket \<open>any\<close> contribute
  nothing. The call returns when its offset is not negative; a returned page is cut from
  the selected movies in the requested order, so it holds selected movies only, and the
  total counts the selected movies.
\<close>

theorem getMovies_selection_predicate:
  assumes "regions filters = None" and "ageRating filters = None"
    and "genres_f filters = None \<or> genres_f filters = Some []"
    and "releaseYearFrom filters = None \<or> releaseYearFrom filters = Some 0"
    and "releaseYearTo filters = None \<or> releaseYearTo filters = Some 0"
  shows "(selected filters m \<longleftrightarrow>
           (case ratingMin filters of
              None \<Rightarrow> True
            | Some v \<Rightarrow> v = 0 \<or> (\<exists>x. voteAverage m = Some x \<and> v \<le> x))
         \<and> (case ratingMax filters of
              None \<Rightarrow> True
            | Some v \<Rightarrow> v = 0 \<or> (\<exists>x. voteAverage m = Some x \<and> x \<le> v))
         \<and> (case runtime_f filters of
              None \<Rightarrow> True
            | Some Any \<Rightarrow> True
            | Some Under90 \<Rightarrow> (\<exists>r. runtime m = Some r \<and> r < 90)
            | Some From90to120 \<Rightarrow> (\<exists>r. runtime m = Some r \<and> 90 \<le> r \<and> r \<le> 120)
            | Some Over120 \<Rightarrow> (\<exists>r. runtime m = Some r \<and> 120 < r)))
       \<and> (0 \<le> offset_of filters \<longrightarrow> (\<exists>ms n. getMovies eng filters d = Inr (ms, n)))
       \<and> (getMovies eng filters d = Inr (ms, n) \<longrightarrow>
            ms = limit_rows (Some (limit_of filters)) (drop (nat (offset_of filters))
                   (order_rows (ordering eng filters) (filter (selected filters) (movies d))))
            \<and> set ms \<subseteq> set (filter (selected filters) (movies d))
            \<and> n = length (filter (selected filters) (movies d)))"
proof -
  have g: "(case genres_f filters of
              Some gs \<Rightarrow>
                if length gs > 0
                then [Disj (map (\<lambda>genreId. Undefined_call ''JSON_SEARCH'') gs)]
                else []
            | None \<Rightarrow> []) = ([] :: Movie sql list)"
    using assms(3) by auto
  have y: "truthy (releaseYearFrom filters) = None" "truthy (releaseYearTo filters) = None"
    using assms(4,5) by (auto simp: truthy_def)
  have cs: "conditions filters =
      (case truthy (ratingMin filters) of
          Some v \<Rightarrow> [Test (gte voteAverage v)] | None \<Rightarrow> [])
     @ (case truthy (ratingMax filters) of
          Some v \<Rightarrow> [Test (lte voteAverage v)] | None \<Rightarrow> [])
     @ (case runtime_f filters of
          Some Under90 \<Rightarrow> [Test (lt_sql runtime 90)]
        | Some From90to120 \<Rightarrow> [Conj [Test (gte runtime 90), Test (lte runtime 120)]]
        | Some Over120 \<Rightarrow> [Test (gt_sql runtime 120)]
        | _ \<Rightarrow> [])"
    unfolding conditions_def g y by simp
  have rmin: "list_all (\<lambda>w. holds w m = Some True)
              (case truthy (ratingMin filters) of
                 Some v \<Rightarrow> [Test (gte voteAverage v)] | None \<Rightarrow> [])
           \<longleftrightarrow> (case ratingMin filters of
                  None \<Rightarrow> True
                | Some v \<Rightarrow> v = 0 \<or> (\<exists>x. voteAverage m = Some x \<and> v \<le> x))"
    by (auto simp: truthy_def gte_def split: option.splits)
  have rmax: "list_all (\<lambda>w. holds w m = Some True)
              (case truthy (ratingMax filters) of
                 Some v \<Rightarrow> [Test (lte voteAverage v)] | None \<Rightarrow> [])
           \<longleftrightarrow> (case ratingMax filters of
                  None \<Rightarrow> True
                | Some v \<Rightarrow> v = 0 \<or> (\<exists>x. voteAverage m = Some x \<and> x \<le> v))"
    by (auto simp: truthy_def lte_def split: option.splits)
  have rt: "list_all (\<lambda>w. holds w m = Some True)
              (case runtime_f filters of
                 Some Under90 \<Rightarrow> [Test (lt_sql runtime 90)]
               | Some From90to120 \<Rightarrow> [Conj [Test (gte runtime 90), Test (lte runtime 120)]]
               | Some Over120 \<Rightarrow> [Test (gt_sql runtime 120)]
               | _ \<Rightarrow> [])
           \<longleftrightarrow> (case runtime_f filters of
                  None \<Rightarrow> True
                | Some Any \<Rightarrow> True
                | Some Under90 \<Rightarrow> (\<exists>r. runtime m = Some r \<and> r < 90)
                | Some From90to120 \<Rightarrow> (\<exists>r. runtime m = Some r \<and> 90 \<le> r \<and> r \<le> 120)
                | Some Over120 \<Rightarrow> (\<exists>r. runtime m = Some r \<and> 120 < r))"
    by (auto simp: and_sql_true lt_sql_def gt_sql_def gte_def lte_def
          split: option.splits runtime_bucket.splits)
  have sel: "selected filters m \<longleftrightarrow>
           (case ratingMin filters of
              None \<Rightarrow> True
            | Some v \<Rightarrow> v = 0 \<or> (\<exists>x. voteAverage m = Some x \<and> v \<le> x))
         \<and> (case ratingMax filters of
              None \<Rightarrow> True
            | Some v \<Rightarrow> v = 0 \<or> (\<exists>x. voteAverage m = Some x \<and> x \<le> v))
         \<and> (case runtime_f filters of
              None \<Rightarrow> True
            | Some Any \<Rightarrow> True
            | Some Under90 \<Rightarrow> (\<exists>r. runtime m = Some r \<and> r < 90)
            | Some From90to120 \<Rightarrow> (\<exists>r. runtime m = Some r \<and> 90 \<le> r \<and> r \<le> 120)
            | Some Over120 \<Rightarrow> (\<exists>r. runtime m = Some r \<and> 120 < r))"
    unfolding selected_conditions cs list_all_append rmin rmax rt
    by (rule refl)
  have "rejected (whereCondition filters) = []"
    using assms(3) y by (simp add: rejected_whereCondition)
  then have ret: "\<exists>ms n. getMovies eng filters d = Inr (ms, n)" if "0 \<le> offset_of filters"
    using that getMovies_returns [of eng filters d] by simp
  have pg: "ms = limit_rows (Some (limit_of filters)) (drop (nat (offset_of filters))
                   (order_rows (ordering eng filters) (filter (selected filters) (movies d))))
            \<and> set ms \<subseteq> set (filter (selected filters) (movies d))
            \<and> n = length (filter (selected filters) (movies d))"
    if r: "getMovies eng filters d = Inr (ms, n)"
    using getMovies_Inr(1,2) [OF r] getMovies_page_subset(1) [OF r] by blast
  from sel ret pg show ?thesis by blast
qed

theorem getMovies_selection_predicate_witness:
  "regions long_and_good_filter = None \<and> ageRating long_and_good_filter = None
   \<and> genres_f long_and_good_filter = None
   \<and> releaseYearFrom long_and_good_filter = None
   \<and> releaseYearTo long_and_good_filter = None
   \<and> 0 \<le> offset_of long_and_good_filter
   \<and> getMovies sample_engine long_and_good_filter sample_db = Inr ([sample_C], 1)
   \<and> selected long_and_good_filter sample_C
   \<and> \<not> selected long_and_good_filter sample_A
   \<and> set [sample_C] \<subseteq> set (filter (selected long_and_good_filter) (movies sample_db))"
proof -
  have r: "regions long_and_good_filter = None" and a: "ageRating long_and_good_filter = None"
    and g: "genres_f long_and_good_filter = None \<or> genres_f long_and_good_filter = Some []"
    and yf: "releaseYearFrom long_and_good_filter = None
             \<or> releaseYearFrom long_and_good_filter = Some 0"
    and yt: "releaseYearTo long_and_good_filter = None
             \<or> releaseYearTo long_and_good_filter = Some 0"
    by (simp_all add: long_and_good_filter_def no_filter_def)
  have f: "ratingMin long_and_good_filter = Some 7" "runtime_f long_and_good_filter = Some Over120"
    "genres_f long_and_good_filter = None" "releaseYearFrom long_and_good_filter = None"
    "releaseYearTo long_and_good_filter = None" "ratingMax long_and_good_filter = None"
    "0 \<le> offset_of long_and_good_filter"
    by (simp_all add: long_and_good_filter_def no_filter_def offset_of_def page_of_def)
  have c: "voteAverage sample_C = Some 9" "runtime sample_C = Some 130"
    "voteAverage sample_A = Some 8" "runtime sample_A = Some 100"
    by (simp_all add: sample_C_def sample_A_def sample_movie_def)
  note at_C = getMovies_selection_predicate [OF r a g yf yt,
         of sample_C sample_engine sample_db "[sample_C]" 1]
  note at_A = getMovies_selection_predicate [OF r a g yf yt,
         of sample_A sample_engine sample_db "[sample_C]" 1]
  from at_C have sC: "selected long_and_good_filter sample_C" by (simp add: f c)
  from at_A have sA: "\<not> selected long_and_good_filter sample_A" by (simp add: f c)
  from at_C sample_long_and_good
  have sub: "set [sample_C] \<subseteq> set (filter (selected long_and_good_filter) (movies sample_db))"
    by blast
  from r a f(3,4,5,7) sample_long_and_good sC sA sub show ?thesis by blast
qed

section \<open>Watchlist, favorites and ratings: duplicates and deletion\<close>

text \<open>
  Every id that a table holds was drawn from its sequence. In such a state the primary
  key, the only unique constraint of \<open>watchlist\<close>, is never violated, and
  \<open>addToWatchlist\<close> appends a row.
\<close>

lemma addToWatchlist_appends:
  assumes "list_all (\<lambda>w. id_wl w \<le> watchlist_seq d) (watchlist d)"
  shows "\<exists>row. addToWatchlist now userId movieId d
           = (Some row, d\<lparr>watchlist := watchlist d @ [row], watchlist_seq := watchlist_seq d + 1\<rparr>)
         \<and> userId_wl row = userId \<and> movieId_wl row = movieId"
proof -
  have "\<not> violates watchlist_unique
           \<lparr>id_wl = watchlist_seq d + 1, userId_wl = userId, movieId_wl = movieId,
            createdAt_wl = Some now\<rparr> (watchlist d)"
    using assms by (auto simp: violates_def watchlist_unique_def list_all_iff list_ex_iff)
  then show ?thesis
    by (simp add: addToWatchlist_def onConflictDoNothing_def Let_def)
qed

text \<open>
  Claim C3 does not hold of the code. Adding the pair \<open>(u1, 1)\<close> twice leaves two
  watchlist rows for the pair, and likewise two favorite rows: \<open>onConflictDoNothing\<close>
  has no unique constraint on \<open>(user_id, movie_id)\<close> to conflict with.
\<close>

theorem addToWatchlist_twice_two_rows:
  "length (filter (\<lambda>w. userId_wl w = ''u1'' \<and> movieId_wl w = 1)
     (watchlist (snd (addToWatchlist 2 ''u1'' 1 (snd (addToWatchlist 1 ''u1'' 1 sample_db)))))) = 2
   \<and> length (filter (\<lambda>w. userId_fav w = ''u1'' \<and> movieId_fav w = 1)
     (favorites (snd (addToFavorites 2 ''u1'' 1 (snd (addToFavorites 1 ''u1'' 1 sample_db)))))) = 2"
  by (simp add: addToWatchlist_def addToFavorites_def onConflictDoNothing_def violates_def
        watchlist_unique_def favorites_unique_def sample_db_def Let_def)

text \<open>
  Claim C4 does not hold of the code. The conflict target \<open>(user_id, movie_id)\<close> of
  \<open>rateMovie\<close> matches no unique constraint of \<open>ratings\<close>, so the database rejects the
  statement on every call and no rating row is written.
\<close>

theorem rateMovie_rejected:
  "rateMovie now userId movieId rating d = Inl NoConstraintForConflictTarget"
  by (simp add: rateMovie_def onConflictDoUpdate_def ratings_unique_def Let_def)

lemma delete_rows_twice: "delete_rows c (delete_rows c rows) = delete_rows c rows"
  by (simp add: delete_rows_def)

lemma delete_rows_none:
  "where_rows (Some c) rows = [] \<Longrightarrow> delete_rows c rows = rows"
  by (auto simp: delete_rows_def where_rows_def filter_empty_conv filter_id_conv)

lemma where_delete_rows: "where_rows (Some c) (delete_rows c rows) = []"
  by (auto simp: delete_rows_def where_rows_def filter_empty_conv)

lemma first_row_None: "first_row rows = None \<longleftrightarrow> rows = []"
  by (cases rows) (simp_all add: first_row_def)

text \<open>
  Claim C9. \<open>removeFromWatchlist\<close> and \<open>removeFromFavorites\<close> have no failing branch:
  they return the new state for every user and movie id. Removing twice gives the state
  of removing once, removing a pair that has no entry leaves the state as it is, and
  after a removal the pair has no entry.
\<close>

theorem remove_is_idempotent:
  "removeFromWatchlist userId movieId (removeFromWatchlist userId movieId d)
     = removeFromWatchlist userId movieId d
   \<and> (\<not> isInWatchlist userId movieId d \<longrightarrow> removeFromWatchlist userId movieId d = d)
   \<and> \<not> isInWatchlist userId movieId (removeFromWatchlist userId movieId d)
   \<and> removeFromFavorites userId movieId (removeFromFavorites userId movieId d)
     = removeFromFavorites userId movieId d
   \<and> (\<not> isInFavorites userId movieId d \<longrightarrow> removeFromFavorites userId movieId d = d)
   \<and> \<not> isInFavorites userId movieId (removeFromFavorites userId movieId d)"
  by (simp add: removeFromWatchlist_def removeFromFavorites_def isInWatchlist_def
        isInFavorites_def delete_rows_twice delete_rows_none where_delete_rows first_row_None)

theorem remove_is_idempotent_witness:
  "\<not> isInWatchlist ''u1'' 1 sample_db \<and> removeFromWatchlist ''u1'' 1 sample_db = sample_db
   \<and> \<not> isInFavorites ''u1'' 1 sample_db \<and> removeFromFavorites ''u1'' 1 sample_db = sample_db
   \<and> isInWatchlist ''u1'' 1 (snd (addToWatchlist 1 ''u1'' 1 sample_db))
   \<and> watchlist (removeFromWatchlist ''u1'' 1 (snd (addToWatchlist 1 ''u1'' 1 sample_db))) = []"
proof -
  have w: "\<not> isInWatchlist ''u1'' 1 sample_db" and f: "\<not> isInFavorites ''u1'' 1 sample_db"
    by (simp_all add: isInWatchlist_def isInFavorites_def sample_db_def where_rows_def first_row_def)
  have a: "isInWatchlist ''u1'' 1 (snd (addToWatchlist 1 ''u1'' 1 sample_db))"
    and r: "watchlist (removeFromWatchlist ''u1'' 1 (snd (addToWatchlist 1 ''u1'' 1 sample_db))) = []"
    by (simp_all add: isInWatchlist_def removeFromWatchlist_def addToWatchlist_def
          onConflictDoNothing_def violates_def watchlist_unique_def sample_db_def where_rows_def
          delete_rows_def first_row_def and_sql_def eq_sql_def Let_def)
  from remove_is_idempotent [of "''u1''" 1 sample_db] w f a r show ?thesis by simp
qed

section \<open>The sync routes\<close>

lemma getMovieByTmdbId_find:
  "getMovieByTmdbId i d = find (\<lambda>m. tmdbId m = i) (movies d)"
proof -
  have "first_row (filter P xs) = find P xs" for P :: "Movie \<Rightarrow> bool" and xs
    by (induction xs) (simp_all add: first_row_def)
  then show ?thesis by (simp add: getMovieByTmdbId_def where_rows_def eq_sql_def)
qed

lemma getMovieByTmdbId_None:
  "getMovieByTmdbId i d = None \<longleftrightarrow> i \<notin> tmdbId ` set (movies d)"
  by (auto simp: getMovieByTmdbId_find find_None_iff)

lemma getMovieByTmdbId_Some:
  "getMovieByTmdbId i d = Some m \<Longrightarrow> m \<in> set (movies d) \<and> tmdbId m = i"
  by (auto simp: getMovieByTmdbId_find find_Some_iff)

lemma createMovie_Inr:
  assumes "createMovie now movie d = (Inr created, d1)"
  shows "d1 = d\<lparr>movies := movies d @ [created], movies_seq := movies_seq d + 1\<rparr>"
    and "tmdbId created = tmdbId movie"
    and "getMovieByTmdbId (tmdbId created) d = None"
  using assms
  by (auto simp: createMovie_def Let_def insert_returning_def violates_def movies_unique_def
        getMovieByTmdbId_find find_None_iff list_ex_iff InsertMovie.defs Movie.defs
        split: if_splits)

lemma createMovie_Inl:
  assumes "createMovie now movie d = (Inl e, d1)"
  shows "d1 = d\<lparr>movies_seq := movies_seq d + 1\<rparr>"
  using assms
  by (auto simp: createMovie_def Let_def insert_returning_def split: if_splits)

lemma sync_loop_all_present:
  "list_all (\<lambda>t. getMovieByTmdbId (id_tmdb t) d \<noteq> None) items \<Longrightarrow>
     sync_loop getMovieDetails now items syncedMovies d
       = (Inr (syncedMovies @ List.map_filter (\<lambda>t. getMovieByTmdbId (id_tmdb t) d) items), d)"
  by (induction items arbitrary: syncedMovies) (auto simp: map_filter_simps)

lemma sync_loop_appends:
  "sync_loop getMovieDetails now items syncedMovies d = (r, d') \<Longrightarrow>
     \<exists>new s. d' = d\<lparr>movies := movies d @ new, movies_seq := s\<rparr>
       \<and> list_all (\<lambda>m. getMovieByTmdbId (tmdbId m) d = None) new
       \<and> distinct (map tmdbId new)"
proof (induction items arbitrary: syncedMovies d)
  case Nil
  then have "d' = d\<lparr>movies := movies d @ [], movies_seq := movies_seq d\<rparr>" by simp
  then show ?case by (intro exI [of _ "[]"] exI [of _ "movies_seq d"]) simp
next
  case (Cons t items)
  show ?case
  proof (cases "getMovieByTmdbId (id_tmdb t) d")
    case (Some movie)
    with Cons.prems
    have "sync_loop getMovieDetails now items (syncedMovies @ [movie]) d = (r, d')" by simp
    from Cons.IH [OF this] show ?thesis .
  next
    case None
    show ?thesis
    proof (cases "getMovieDetails (id_tmdb t)")
      case no_details: None
      with None Cons.prems
      have "d' = d\<lparr>movies := movies d @ [], movies_seq := movies_seq d\<rparr>" by simp
      then show ?thesis by (intro exI [of _ "[]"] exI [of _ "movies_seq d"]) simp
    next
      case (Some movieDetails)
      obtain res d1 where c: "createMovie now (movie_values movieDetails) d = (res, d1)"
        by (cases "createMovie now (movie_values movieDetails) d")
      show ?thesis
      proof (cases res)
        case (Inl e)
        with None Some c Cons.prems have "d' = d1" by simp
        with createMovie_Inl [OF c [unfolded Inl]]
        have "d' = d\<lparr>movies := movies d @ [], movies_seq := movies_seq d + 1\<rparr>" by simp
        then show ?thesis by (intro exI [of _ "[]"] exI [of _ "movies_seq d + 1"]) simp
      next
        case (Inr created)
        with None Some c Cons.prems
        have "sync_loop getMovieDetails now items (syncedMovies @ [created]) d1 = (r, d')"
          by simp
        from Cons.IH [OF this] obtain new s where
          d': "d' = d1\<lparr>movies := movies d1 @ new, movies_seq := s\<rparr>"
          and new: "list_all (\<lambda>m. getMovieByTmdbId (tmdbId m) d1 = None) new"
          and dist: "distinct (map tmdbId new)"
          by blast
        note c' = createMovie_Inr [OF c [unfolded Inr]]
        have a: "d' = d\<lparr>movies := movies d @ (created # new), movies_seq := s\<rparr>"
          by (simp add: d' c'(1))
        from new have fresh: "\<forall>m \<in> set new. tmdbId m \<notin> tmdbId ` set (movies d)
                                 \<and> tmdbId m \<noteq> tmdbId created"
          by (auto simp: getMovieByTmdbId_None c'(1) list_all_iff)
        with c'(3) have b: "list_all (\<lambda>m. getMovieByTmdbId (tmdbId m) d = None) (created # new)"
          by (simp add: getMovieByTmdbId_None list_all_iff)
        from fresh dist have e: "distinct (map tmdbId (created # new))" by auto
        from a b e show ?thesis by blast
      qed
    qed
  qed
qed

lemma sync_loop_synced:
  "sync_loop getMovieDetails now items syncedMovies d = (Inr result, d') \<Longrightarrow>
     length result = length syncedMovies + length items
     \<and> set result \<subseteq> set syncedMovies \<union> set (movies d')"
proof (induction items arbitrary: syncedMovies d)
  case Nil
  then show ?case by auto
next
  case (Cons t items)
  from sync_loop_appends [OF Cons.prems]
  have grows: "set (movies d) \<subseteq> set (movies d')" by auto
  show ?case
  proof (cases "getMovieByTmdbId (id_tmdb t) d")
    case (Some movie)
    with Cons.prems
    have r: "sync_loop getMovieDetails now items (syncedMovies @ [movie]) d = (Inr result, d')"
      by simp
    from getMovieByTmdbId_Some [OF Some] grows have "movie \<in> set (movies d')" by blast
    with Cons.IH [OF r] show ?thesis by auto
  next
    case None
    with Cons.prems obtain movieDetails created d1 where
      c: "createMovie now (movie_values movieDetails) d = (Inr created, d1)"
      and r: "sync_loop getMovieDetails now items (syncedMovies @ [created]) d1 = (Inr result, d')"
      by (auto split: option.splits prod.splits sum.splits)
    from sync_loop_appends [OF r] have "set (movies d1) \<subseteq> set (movies d')" by auto
    with createMovie_Inr(1) [OF c] have "created \<in> set (movies d')" by auto
    with Cons.IH [OF r] show ?thesis by auto
  qed
qed

text \<open>
  Claim C7. When every item of the listing is already resident (by external id), a sync
  handler returns the resident rows of the items with the listing's total and leaves the
  database as it was: no insert. Whatever a handler returns, also after a failure, it has
  only appended rows to \<open>movies\<close>, each for an external id that was absent before and no
  two for the same id, and has changed no row that was there. A successful sync returns
  one row per listed item, each resident afterwards. The three handlers are
  \<open>sync_handler\<close> with their messages.
\<close>

theorem sync_leaves_present_movies_untouched:
  "(list_all (\<lambda>t. getMovieByTmdbId (id_tmdb t) d \<noteq> None) (results listing) \<longrightarrow>
      sync_handler message (Some listing) getMovieDetails now d
        = (Synced (List.map_filter (\<lambda>t. getMovieByTmdbId (id_tmdb t) d) (results listing))
             (total_results listing), d))
   \<and> (sync_handler message fetched getMovieDetails now d = (response, d') \<longrightarrow>
        (\<exists>new s. d' = d\<lparr>movies := movies d @ new, movies_seq := s\<rparr>
           \<and> list_all (\<lambda>m. getMovieByTmdbId (tmdbId m) d = None) new
           \<and> distinct (map tmdbId new)))
   \<and> (sync_handler message (Some listing) getMovieDetails now d
         = (Synced syncedMovies reported, d') \<longrightarrow>
        length syncedMovies = length (results listing)
        \<and> set syncedMovies \<subseteq> set (movies d')
        \<and> reported = total_results listing)"
proof -
  have p1: "sync_handler message (Some listing) getMovieDetails now d
        = (Synced (List.map_filter (\<lambda>t. getMovieByTmdbId (id_tmdb t) d) (results listing))
             (total_results listing), d)"
    if "list_all (\<lambda>t. getMovieByTmdbId (id_tmdb t) d \<noteq> None) (results listing)"
    using sync_loop_all_present [OF that, of getMovieDetails now "[]"]
    by (simp add: sync_handler_def)
  have p2: "\<exists>new s. d' = d\<lparr>movies := movies d @ new, movies_seq := s\<rparr>
           \<and> list_all (\<lambda>m. getMovieByTmdbId (tmdbId m) d = None) new
           \<and> distinct (map tmdbId new)"
    if h: "sync_handler message fetched getMovieDetails now d = (response, d')"
  proof (cases fetched)
    case None
    with h have "d' = d\<lparr>movies := movies d @ [], movies_seq := movies_seq d\<rparr>"
      by (simp add: sync_handler_def)
    then show ?thesis by (intro exI [of _ "[]"] exI [of _ "movies_seq d"]) simp
  next
    case (Some tmdbMovies)
    obtain r d1 where l: "sync_loop getMovieDetails now (results tmdbMovies) [] d = (r, d1)"
      by (cases "sync_loop getMovieDetails now (results tmdbMovies) [] d")
    with h Some have "d1 = d'" by (auto simp: sync_handler_def split: sum.splits)
    with sync_loop_appends [OF l] show ?thesis by simp
  qed
  have p3: "length syncedMovies = length (results listing)
        \<and> set syncedMovies \<subseteq> set (movies d')
        \<and> reported = total_results listing"
    if h: "sync_handler message (Some listing) getMovieDetails now d
         = (Synced syncedMovies reported, d')"
  proof -
    from h have l: "sync_loop getMovieDetails now (results listing) [] d = (Inr syncedMovies, d')"
      and t: "reported = total_results listing"
      by (auto simp: sync_handler_def split: sum.splits prod.splits)
    from sync_loop_synced [OF l] t show ?thesis by simp
  qed
  from p1 p2 p3 show ?thesis by blast
qed

lemma sample_sync_resident:
  "sync_popular (Some resident_listing) sample_details 9 sample_db
     = (Synced [sample_A, sample_C] 2, sample_db)"
  by (simp add: sync_popular_def sync_handler_def resident_listing_def getMovieByTmdbId_find
        sample_item_def sample_db_def
        sample_A_def sample_B_def sample_C_def sample_D_def sample_movie_def)

text \<open>
  A listing with one resident and one absent item inserts the absent one. When the
  details of a later item cannot be fetched, the handler answers 500 and the row inserted
  before stays.
\<close>

lemma sample_sync_inserts:
  "sync_popular (Some mixed_listing) sample_details 9 sample_db
     = (Synced [sample_A, sample_E] 2,
        sample_db\<lparr>movies := movies sample_db @ [sample_E], movies_seq := 5\<rparr>)"
  by (simp add: sync_popular_def sync_handler_def mixed_listing_def getMovieByTmdbId_find
        sample_item_def sample_db_def sample_details_def movie_values_def
        createMovie_def insert_returning_def violates_def movies_unique_def
        InsertMovie.defs Movie.defs Let_def
        sample_A_def sample_B_def sample_C_def sample_D_def sample_E_def sample_movie_def)

lemma sample_sync_fails:
  "sync_popular (Some failing_listing) sample_details 9 sample_db
     = (Status500 ''Failed to sync popular movies'',
        sample_db\<lparr>movies := movies sample_db @ [sample_E], movies_seq := 5\<rparr>)"
  by (simp add: sync_popular_def sync_handler_def failing_listing_def getMovieByTmdbId_find
        sample_item_def sample_db_def sample_details_def movie_values_def
        createMovie_def insert_returning_def violates_def movies_unique_def
        InsertMovie.defs Movie.defs Let_def
        sample_A_def sample_B_def sample_C_def sample_D_def sample_E_def sample_movie_def)

theorem sync_leaves_present_movies_untouched_witness:
  "list_all (\<lambda>t. getMovieByTmdbId (id_tmdb t) sample_db \<noteq> None) (results resident_listing)
   \<and> sync_popular (Some resident_listing) sample_details 9 sample_db
       = (Synced [sample_A, sample_C] 2, sample_db)
   \<and> sync_handler ''Failed to sync popular movies'' (Some resident_listing) sample_details 9
         sample_db
       = (Synced (List.map_filter (\<lambda>t. getMovieByTmdbId (id_tmdb t) sample_db)
                    (results resident_listing))
            (total_results resident_listing), sample_db)
   \<and> sync_popular (Some mixed_listing) sample_details 9 sample_db
       = (Synced [sample_A, sample_E] 2,
          sample_db\<lparr>movies := movies sample_db @ [sample_E], movies_seq := 5\<rparr>)
   \<and> length [sample_A, sample_E] = length (results mixed_listing)
   \<and> set [sample_A, sample_E]
       \<subseteq> set (movies (sample_db\<lparr>movies := movies sample_db @ [sample_E], movies_seq := 5\<rparr>))
   \<and> (\<exists>new s. sample_db\<lparr>movies := movies sample_db @ [sample_E], movies_seq := 5\<rparr>
                 = sample_db\<lparr>movies := movies sample_db @ new, movies_seq := s\<rparr>
          \<and> list_all (\<lambda>m. getMovieByTmdbId (tmdbId m) sample_db = None) new
          \<and> distinct (map tmdbId new))"
proof -
  have p: "list_all (\<lambda>t. getMovieByTmdbId (id_tmdb t) sample_db \<noteq> None)
             (results resident_listing)"
    by (simp add: resident_listing_def getMovieByTmdbId_find sample_item_def sample_db_def
        sample_A_def sample_B_def sample_C_def sample_D_def sample_movie_def)
  have r: "sync_handler ''Failed to sync popular movies'' (Some resident_listing)
             sample_details 9 sample_db = (Synced [sample_A, sample_C] 2, sample_db)"
    using sample_sync_resident by (simp add: sync_popular_def)
  have i: "sync_handler ''Failed to sync popular movies'' (Some mixed_listing)
             sample_details 9 sample_db
           = (Synced [sample_A, sample_E] 2,
              sample_db\<lparr>movies := movies sample_db @ [sample_E], movies_seq := 5\<rparr>)"
    using sample_sync_inserts by (simp add: sync_popular_def)
  note at_mixed = sync_leaves_present_movies_untouched
    [of sample_db mixed_listing "''Failed to sync popular movies''" sample_details 9
        "Some mixed_listing" "Synced [sample_A, sample_E] 2"
        "sample_db\<lparr>movies := movies sample_db @ [sample_E], movies_seq := 5\<rparr>"
        "[sample_A, sample_E]" 2]
  from at_mixed i
  have n: "\<exists>new s. sample_db\<lparr>movies := movies sample_db @ [sample_E], movies_seq := 5\<rparr>
                 = sample_db\<lparr>movies := movies sample_db @ new, movies_seq := s\<rparr>
          \<and> list_all (\<lambda>m. getMovieByTmdbId (tmdbId m) sample_db = None) new
          \<and> distinct (map tmdbId new)"
    and l: "length [sample_A, sample_E] = length (results mixed_listing)"
    and s: "set [sample_A, sample_E]
       \<subseteq> set (movies (sample_db\<lparr>movies := movies sample_db @ [sample_E], movies_seq := 5\<rparr>))"
    by blast+
  from p sync_leaves_present_movies_untouched
    [of sample_db resident_listing "''Failed to sync popular movies''" sample_details 9]
  have q: "sync_handler ''Failed to sync popular movies'' (Some resident_listing) sample_details 9
         sample_db
       = (Synced (List.map_filter (\<lambda>t. getMovieByTmdbId (id_tmdb t) sample_db)
                    (results resident_listing))
            (total_results resident_listing), sample_db)"
    by blast
  from p q sample_sync_resident sample_sync_inserts l s n show ?thesis by blast
qed

end
